theory Spec2Isabelle
  imports Main "HOL-Library.Word"
begin

section \<open>Python values and observable effects\<close>

text \<open>
  A shallow embedding of \<^verbatim>\<open>release_the_hounds.py\<close>. A Python \<^verbatim>\<open>str\<close> is the
  \<^typ>\<open>string\<close> of its UTF-8 bytes: the script only splits on the ASCII characters
  \<^verbatim>\<open>:\<close> and \<^verbatim>\<open>/\<close>, tests suffixes and substrings and concatenates, and UTF-8 keeps
  all of these the same on bytes as on code points. An exception is a value of
  \<open>py_exn\<close>; a function that can raise returns \<open>py_exn + 'a\<close>.
\<close>

datatype py_exn =
    IndexError | TypeError
  | FileNotFoundError | IsADirectoryError | NotADirectoryError
  | UnicodeDecodeError | JSONDecodeError
  | BadZipFile | RuntimeError
  | ClientError

text \<open>
  What \<^verbatim>\<open>json.load\<close> returns: \<^verbatim>\<open>None\<close>, a bool, an int, a float (by its IEEE-754
  bits), a str, a list or a dict (its items in order).
\<close>

datatype json =
    JNull | JBool bool | JInt int | JFloat "64 word" | JStr string
  | JArr "json list" | JObj "(string \<times> json) list"

text \<open>
  The two ways \<open>load_file\<close> opens a text file: with the platform's default encoding
  (\<^verbatim>\<open>open(filename, 'r')\<close>) and with \<^verbatim>\<open>encoding='utf-8-sig'\<close>.
\<close>

datatype encoding = Locale | Utf8Sig

text \<open>
  The observable effects of a run: a line printed, the banner (the fixed ASCII art of
  \<open>banner()\<close>), an attempt to open a text file for reading (the path and the encoding
  asked for), and the two calls to the API client (\<^verbatim>\<open>client.get_version()\<close> and
  \<^verbatim>\<open>client.chunk_and_submit_data(...)\<close>, with the document and both chunking
  numbers).
\<close>

datatype event =
    Print string | Banner | OpenText string encoding
  | GetVersion | ChunkAndSubmit json int int

text \<open>
  How \<open>main()\<close> ends: it returns, \<^verbatim>\<open>exit()\<close> raises \<^verbatim>\<open>SystemExit\<close> with no code,
  or an exception is not caught. The interpreter's exit status is 0 for the first two
  (\<^verbatim>\<open>exit()\<close> is \<^verbatim>\<open>sys.exit(None)\<close>, status 0) and 1 for an uncaught exception.
\<close>

datatype outcome = Returned | SystemExit | Raised py_exn

fun exit_status :: "outcome \<Rightarrow> int" where
  "exit_status Returned = 0"
| "exit_status SystemExit = 0"
| "exit_status (Raised e) = 1"

subsection \<open>String operations\<close>

text \<open>\<^verbatim>\<open>s.split(sep)\<close> for a one-character separator: never empty, one more segment than separators.\<close>

fun str_split :: "char \<Rightarrow> string \<Rightarrow> string list" where
  "str_split sep [] = [[]]"
| "str_split sep (c # cs) =
     (let r = str_split sep cs
      in if c = sep then [] # r else (c # hd r) # tl r)"

text \<open>\<^verbatim>\<open>s.endswith(suffix)\<close>.\<close>

definition endswith :: "string \<Rightarrow> string \<Rightarrow> bool" where
  "endswith s suffix \<longleftrightarrow>
     length suffix \<le> length s \<and> drop (length s - length suffix) s = suffix"

text \<open>\<^verbatim>\<open>sub in s\<close> for two strings: \<open>sub\<close> occurs in \<open>s\<close> as a contiguous run.\<close>

fun str_contains :: "string \<Rightarrow> string \<Rightarrow> bool" where
  "str_contains sub [] \<longleftrightarrow> sub = []"
| "str_contains sub (c # cs) \<longleftrightarrow> take (length sub) (c # cs) = sub \<or> str_contains sub cs"

text \<open>\<^verbatim>\<open>xs[i]\<close> for a literal index \<open>i \<ge> 0\<close>: out of range raises \<^verbatim>\<open>IndexError\<close>.\<close>

definition py_index :: "'a list \<Rightarrow> nat \<Rightarrow> py_exn + 'a" where
  "py_index xs i = (if i < length xs then Inr (xs ! i) else Inl IndexError)"

section \<open>Command line and defaults\<close>

text \<open>
  The namespace \<open>parse_args()\<close> returns. The three \<^verbatim>\<open>type=str\<close> options are \<^verbatim>\<open>None\<close>
  when not given; the two \<^verbatim>\<open>type=int\<close> options have defaults (250 and 50), so they
  are always integers, of any sign.
\<close>

record args =
  location :: string
  url :: "string option"
  tokenkey :: "string option"
  tokenid :: "string option"
  chunkobjects :: int
  chunksinjob :: int

text \<open>
  \<^verbatim>\<open>api_info\<close> of \<^verbatim>\<open>constants.py\<close>, which is not among the sources: its five entries
  are parameters (the port as it prints).
\<close>

record api_info =
  BHCE_TOKEN_ID :: string
  BHCE_TOKEN_KEY :: string
  BHCE_DOMAIN :: string
  BHCE_PORT :: string
  BHCE_SCHEME :: string

text \<open>
  The arguments of \<^verbatim>\<open>Client(scheme=..., host=..., port=..., credentials=...)\<close>, the
  credentials being the token pair. \<^verbatim>\<open>Credentials\<close> and \<^verbatim>\<open>Client\<close> come from \<^verbatim>\<open>api.py\<close>,
  which is not among the sources; their constructors are taken to store their
  arguments and do nothing else.
\<close>

record client =
  scheme :: string
  host :: string
  port :: string
  token_id :: string
  token_key :: string

text \<open>Python truthiness of an optional string: \<^verbatim>\<open>None\<close> and \<^verbatim>\<open>''\<close> are false.\<close>

fun truthy :: "string option \<Rightarrow> bool" where
  "truthy None = False"
| "truthy (Some s) = (s \<noteq> [])"

text \<open>Lines 107 to 114 of \<open>main\<close>: an override wins when it is truthy.\<close>

definition main_token_id :: "api_info \<Rightarrow> args \<Rightarrow> string" where
  "main_token_id api a = (if truthy (tokenid a) then the (tokenid a) else BHCE_TOKEN_ID api)"

definition main_token_key :: "api_info \<Rightarrow> args \<Rightarrow> string" where
  "main_token_key api a = (if truthy (tokenkey a) then the (tokenkey a) else BHCE_TOKEN_KEY api)"

definition url_usage :: string where
  "url_usage = ''[*] URL parameter must include protocol scheme and port. Example: https://bloodhound.absalom.org:443''"

text \<open>
  Lines 115 to 125 of \<open>main\<close>: the endpoint as (scheme, host, port). The length test
  guards the indices 0, 1 and 2 of the split on \<^verbatim>\<open>:\<close>; nothing guards index 2 of the
  split of the second segment on \<^verbatim>\<open>/\<close>, which raises \<^verbatim>\<open>IndexError\<close> out of range.
\<close>

definition main_endpoint :: "api_info \<Rightarrow> args \<Rightarrow> event list \<times> (outcome + string \<times> string \<times> string)" where
  "main_endpoint api a =
     (if truthy (url a) then
        (let u = the (url a) in
         if length (str_split CHR '':'' u) \<noteq> 3 then ([Print url_usage], Inl SystemExit)
         else
           (case py_index (str_split CHR ''/'' (str_split CHR '':'' u ! 1)) 2 of
              Inl e \<Rightarrow> ([], Inl (Raised e))
            | Inr domain \<Rightarrow>
                ([], Inr (str_split CHR '':'' u ! 0, domain, str_split CHR '':'' u ! 2))))
      else ([], Inr (BHCE_SCHEME api, BHCE_DOMAIN api, BHCE_PORT api)))"

text \<open>Lines 128 and 129 of \<open>main\<close>: \<^verbatim>\<open>x if x else default\<close>; of the integers only 0 is false.\<close>

definition or_default :: "int \<Rightarrow> int \<Rightarrow> int" where
  "or_default x d = (if x \<noteq> 0 then x else d)"

section \<open>The platform: files, codecs, archives and the API client\<close>

text \<open>
  What the operating system finds at a path (relative to the working directory): a
  regular file with its bytes, or a directory with its entries in \<^verbatim>\<open>scandir\<close> order.
  Symbolic links are not modelled.
\<close>

datatype fsnode = File string | Dir "(string \<times> fsnode) list"

type_synonym filesystem = "string \<Rightarrow> fsnode option"

text \<open>
  A member of a zip archive as the archive's directory lists it: a file with its
  bytes, a directory entry, or an encrypted file.
\<close>

datatype zmember = ZFile string | ZDir | ZEncrypted

record version =
  api_version :: string
  server_version :: string

text \<open>
  The library and the collaborators the script calls but does not define, as
  parameters: the platform's default text codec (\<open>None\<close> is \<^verbatim>\<open>UnicodeDecodeError\<close>;
  the text comes back in its UTF-8 form), the UTF-8 codec's check, the JSON decoder
  proper (\<open>None\<close> is \<^verbatim>\<open>JSONDecodeError\<close>), \<^verbatim>\<open>zipfile\<close>'s reading of an archive's
  directory (\<open>None\<close> is \<^verbatim>\<open>BadZipFile\<close>), \<^verbatim>\<open>zipfile\<close>'s \<^verbatim>\<open>extractall()\<close> (the file
  system it leaves and, when it stops at a member it cannot extract, the exception it
  raises there: where it writes each member and what it cannot write are the
  library's business), and the two methods of \<^verbatim>\<open>Client\<close> from \<^verbatim>\<open>api.py\<close> acting on the
  state \<open>'s\<close> of the remote service.
\<close>

record 's platform =
  locale_decode :: "string \<Rightarrow> string option"
  utf_8_valid :: "string \<Rightarrow> bool"
  json_decode :: "string \<Rightarrow> json option"
  zip_members :: "string \<Rightarrow> (string \<times> zmember) list option"
  extractall :: "filesystem \<Rightarrow> (string \<times> zmember) list \<Rightarrow> filesystem \<times> py_exn option"
  get_version :: "client \<Rightarrow> 's \<Rightarrow> (py_exn + version) \<times> 's"
  chunk_and_submit_data :: "client \<Rightarrow> json \<Rightarrow> int \<Rightarrow> int \<Rightarrow> 's \<Rightarrow> py_exn option \<times> 's"

subsection \<open>Reading text and JSON\<close>

text \<open>The UTF-8 byte-order marker, the bytes EF BB BF (the character U+FEFF).\<close>

definition BOM :: string where
  "BOM = [CHR 0xEF, CHR 0xBB, CHR 0xBF]"

definition startswith :: "string \<Rightarrow> string \<Rightarrow> bool" where
  "startswith s prefix \<longleftrightarrow> take (length prefix) s = prefix"

text \<open>The codec \<^verbatim>\<open>utf-8-sig\<close> skips one leading marker and then decodes UTF-8.\<close>

definition decode :: "'s platform \<Rightarrow> encoding \<Rightarrow> string \<Rightarrow> string option" where
  "decode P enc bs =
     (case enc of
        Locale \<Rightarrow> locale_decode P bs
      | Utf8Sig \<Rightarrow>
          (let rest = (if startswith bs BOM then drop (length BOM) bs else bs)
           in if utf_8_valid P rest then Some rest else None))"

text \<open>\<^verbatim>\<open>open(path, 'r', encoding=...)\<close> followed by \<^verbatim>\<open>f.read()\<close>.\<close>

definition read_text :: "'s platform \<Rightarrow> filesystem \<Rightarrow> encoding \<Rightarrow> string \<Rightarrow> py_exn + string" where
  "read_text P fs enc path =
     (case fs path of
        None \<Rightarrow> Inl FileNotFoundError
      | Some (Dir es) \<Rightarrow> Inl IsADirectoryError
      | Some (File bs) \<Rightarrow>
          (case decode P enc bs of None \<Rightarrow> Inl UnicodeDecodeError | Some t \<Rightarrow> Inr t))"

text \<open>
  \<^verbatim>\<open>json.loads\<close> on a str: a text that starts with U+FEFF is refused outright
  ("Unexpected UTF-8 BOM (decode using utf-8-sig)"), any other goes to the decoder.
\<close>

definition json_loads :: "'s platform \<Rightarrow> string \<Rightarrow> py_exn + json" where
  "json_loads P t =
     (if startswith t BOM then Inl JSONDecodeError
      else (case json_decode P t of None \<Rightarrow> Inl JSONDecodeError | Some d \<Rightarrow> Inr d))"

text \<open>
  One attempt of \<open>load_file\<close>: \<^verbatim>\<open>with open(...) as f: json.load(f)\<close>. (The script
  does not import \<^verbatim>\<open>json\<close> itself; the name is taken to reach it through
  \<^verbatim>\<open>from api import *\<close>.)
\<close>

definition json_load :: "'s platform \<Rightarrow> filesystem \<Rightarrow> encoding \<Rightarrow> string \<Rightarrow> py_exn + json" where
  "json_load P fs enc path =
     (case read_text P fs enc path of Inl e \<Rightarrow> Inl e | Inr t \<Rightarrow> json_loads P t)"

text \<open>
  \<open>load_file\<close>: the bare \<^verbatim>\<open>except:\<close> sends every failure of the first attempt to the
  second; a failure of the second is the function's.
\<close>

definition load_file :: "'s platform \<Rightarrow> filesystem \<Rightarrow> string \<Rightarrow> event list \<times> (py_exn + json)" where
  "load_file P fs filename =
     (case json_load P fs Locale filename of
        Inr d \<Rightarrow> ([OpenText filename Locale], Inr d)
      | Inl e \<Rightarrow>
          ([OpenText filename Locale, OpenText filename Utf8Sig],
           json_load P fs Utf8Sig filename))"

subsection \<open>Archives\<close>

text \<open>\<^verbatim>\<open>zipfile.ZipFile(filename, 'r')\<close>: the archive's members in its directory's order.\<close>

definition ZipFile :: "'s platform \<Rightarrow> filesystem \<Rightarrow> string \<Rightarrow> py_exn + (string \<times> zmember) list" where
  "ZipFile P fs filename =
     (case fs filename of
        None \<Rightarrow> Inl FileNotFoundError
      | Some (Dir es) \<Rightarrow> Inl IsADirectoryError
      | Some (File bs) \<Rightarrow>
          (case zip_members P bs of None \<Rightarrow> Inl BadZipFile | Some ms \<Rightarrow> Inr ms))"

definition zip_error :: "string \<Rightarrow> string" where
  "zip_error filename =
     ''Error extracting JSON data from zip: '' @ filename @ '' may not be a valid zip file.''"

text \<open>
  \<open>extract_zip\<close>: the bare \<^verbatim>\<open>except:\<close> covers the opening and the extraction alike, and
  \<open>extracted_files\<close> is assigned only after \<^verbatim>\<open>extractall()\<close> has returned.
\<close>

definition extract_zip :: "'s platform \<Rightarrow> filesystem \<Rightarrow> string \<Rightarrow> filesystem \<times> event list \<times> string list" where
  "extract_zip P fs filename =
     (case ZipFile P fs filename of
        Inl e \<Rightarrow> (fs, [Print (zip_error filename)], [])
      | Inr ms \<Rightarrow>
          (case extractall P fs ms of
             (fs', Some e) \<Rightarrow> (fs', [Print (zip_error filename)], [])
           | (fs', None) \<Rightarrow> (fs', [], map fst ms)))"

subsection \<open>Directories\<close>

text \<open>\<^verbatim>\<open>os.path.join(a, b)\<close> (POSIX).\<close>

definition path_join :: "string \<Rightarrow> string \<Rightarrow> string" where
  "path_join a b =
     (if startswith b ''/'' then b
      else if a = [] \<or> endswith a ''/'' then a @ b
      else a @ ''/'' @ b)"

fun is_Dir :: "fsnode \<Rightarrow> bool" where
  "is_Dir (Dir es) = True"
| "is_Dir (File bs) = False"

text \<open>
  \<^verbatim>\<open>os.walk(top)\<close>, top down: a directory yields (its path, its subdirectories' names,
  its other entries' names) and is followed by the walks of its subdirectories. With
  \<^verbatim>\<open>onerror=None\<close>, as here, \<^verbatim>\<open>os.walk\<close> ignores the error of a \<^verbatim>\<open>scandir\<close> that fails:
  a path that is missing or is no directory yields nothing and raises nothing.
\<close>

fun walk :: "string \<Rightarrow> fsnode \<Rightarrow> (string \<times> string list \<times> string list) list" where
  "walk dirpath (File bs) = []"
| "walk dirpath (Dir es) =
     (dirpath, map fst (filter (\<lambda>e. is_Dir (snd e)) es), map fst (filter (\<lambda>e. \<not> is_Dir (snd e)) es))
     # concat (map (\<lambda>e. walk (path_join dirpath (fst e)) (snd e)) (filter (\<lambda>e. is_Dir (snd e)) es))"

definition os_walk :: "filesystem \<Rightarrow> string \<Rightarrow> (string \<times> string list \<times> string list) list" where
  "os_walk fs dirpath = (case fs dirpath of None \<Rightarrow> [] | Some n \<Rightarrow> walk dirpath n)"

text \<open>
  \<open>list_files_in_directory\<close>. Its handler for \<^verbatim>\<open>FileNotFoundError\<close> prints
  \<^verbatim>\<open>Error: Directory '...' not found.\<close>, but \<^verbatim>\<open>os.walk\<close> raises no such error, so
  nothing of the function prints.
\<close>

definition list_files_in_directory :: "filesystem \<Rightarrow> string \<Rightarrow> event list \<times> string list" where
  "list_files_in_directory fs directory =
     ([], concat (map (\<lambda>(root, dirs, files).
                         map (path_join root) (filter (\<lambda>file. endswith file ''.json'') files))
                      (os_walk fs directory)))"

section \<open>Structural validation\<close>

text \<open>
  \<^verbatim>\<open>key in json_data\<close> for a string key: a key of a dict, an element of a list (only a
  str equals a str), a substring of a str; any other value is not iterable and the
  test raises \<^verbatim>\<open>TypeError\<close>.
\<close>

fun py_in :: "string \<Rightarrow> json \<Rightarrow> py_exn + bool" where
  "py_in key (JObj items) = Inr (key \<in> set (map fst items))"
| "py_in key (JArr xs) = Inr (JStr key \<in> set xs)"
| "py_in key (JStr s) = Inr (str_contains key s)"
| "py_in key v = Inl TypeError"

text \<open>\<^verbatim>\<open>all(key in json_data for key in keys)\<close>: in order, stopping at the first false.\<close>

fun all_in :: "string list \<Rightarrow> json \<Rightarrow> py_exn + bool" where
  "all_in [] json_data = Inr True"
| "all_in (key # keys) json_data =
     (case py_in key json_data of
        Inl e \<Rightarrow> Inl e
      | Inr b \<Rightarrow> if b then all_in keys json_data else Inr False)"

definition checking_line :: string where
  \<open>checking_line = ''[*] Checking if the data is valid''\<close>

definition troubleshoot :: "string list" where
  \<open>troubleshoot =
     [''[-] This data does not look like valid BloodHound data! Troubleshoot ideas:'',
      ''    -> Did you use the most recent collector?'',
      ''    -> Are you using "data" as the key for objects (old collectors used "computers", "users", etc.)'',
      ''    -> Check out https://support.bloodhoundenterprise.io/hc/en-us/articles/17303881735963-BloodHound-JSON-Formats'']\<close>

definition validate_json :: "json \<Rightarrow> event list \<times> (py_exn + bool)" where
  "validate_json json_data =
     (case all_in [''data'', ''meta''] json_data of
        Inl e \<Rightarrow> ([Print checking_line], Inl e)
      | Inr b \<Rightarrow>
          if b then ([Print checking_line], Inr True)
          else (Print checking_line # map Print troubleshoot, Inr False))"

section \<open>The run\<close>

definition loading :: "string \<Rightarrow> string" where
  "loading f = ''[*] LOADING SHARPHOUND DATA FILE: '' @ f @ '' -->''"

text \<open>
  Lines 152 to 155 of \<open>main\<close>: the loop over the discovered files. An exception of
  \<open>load_file\<close> or of the client's submission is not caught and ends the loop.
\<close>

fun process_files ::
  "'s platform \<Rightarrow> filesystem \<Rightarrow> client \<Rightarrow> int \<Rightarrow> int \<Rightarrow> string list \<Rightarrow> 's \<Rightarrow> event list \<times> outcome \<times> 's"
where
  "process_files P fs c chunk_object_count num_chunks_per_job [] s = ([], Returned, s)"
| "process_files P fs c chunk_object_count num_chunks_per_job (f # files) s =
     (case load_file P fs f of
        (opened, Inl e) \<Rightarrow> (Print (loading f) # opened, Raised e, s)
      | (opened, Inr bhjson) \<Rightarrow>
          (case chunk_and_submit_data P c bhjson chunk_object_count num_chunks_per_job s of
             (Some e, s') \<Rightarrow>
               (Print (loading f) # opened
                  @ [ChunkAndSubmit bhjson chunk_object_count num_chunks_per_job],
                Raised e, s')
           | (None, s') \<Rightarrow>
               (case process_files P fs c chunk_object_count num_chunks_per_job files s' of
                  (later, res, s'') \<Rightarrow>
                    (Print (loading f) # opened
                       @ ChunkAndSubmit bhjson chunk_object_count num_chunks_per_job # later,
                     res, s''))))"

text \<open>Line 151 of \<open>main\<close>: the location's suffix alone picks the way files are found.\<close>

definition discover :: "'s platform \<Rightarrow> filesystem \<Rightarrow> string \<Rightarrow> filesystem \<times> event list \<times> string list" where
  "discover P fs loc =
     (if endswith loc ''.zip'' then extract_zip P fs loc
      else (case list_files_in_directory fs loc of (printed, files) \<Rightarrow> (fs, printed, files)))"

definition connecting :: "string \<Rightarrow> string \<Rightarrow> string \<Rightarrow> event list" where
  "connecting schm domain prt =
     [Banner,
      Print ''<#######################################################################>'',
      Print ''<-=-=-=-=-=-=-=-=- Initiating the BloodHound CE client -=-=-=-=-=-=-=-=->'',
      Print (''[*] Connecting to: '' @ schm @ ''://'' @ domain @ '':'' @ prt),
      Print ''[*] Testing credentials by getting API version ...'',
      GetVersion]"

definition authenticated :: "version \<Rightarrow> event list" where
  "authenticated v =
     [Print (''[+] Successfully authenticated to the API! Version: '' @ api_version v
             @ '' - Server version: '' @ server_version v),
      Print []]"

definition auth_failed :: string where
  "auth_failed = ''[-] Failed to authenticate to the target API. Exiting ...''"

text \<open>
  \<open>main\<close>, from the parsed arguments on. The bare \<^verbatim>\<open>except:\<close> around
  \<^verbatim>\<open>client.get_version()\<close> turns every failure of the probe into the message and
  \<^verbatim>\<open>exit()\<close>.
\<close>

definition main_client :: "api_info \<Rightarrow> args \<Rightarrow> string \<Rightarrow> string \<Rightarrow> string \<Rightarrow> client" where
  "main_client api a schm domain prt =
     \<lparr>scheme = schm, host = domain, port = prt,
      token_id = main_token_id api a, token_key = main_token_key api a\<rparr>"

definition main :: "'s platform \<Rightarrow> api_info \<Rightarrow> args \<Rightarrow> filesystem \<Rightarrow> 's \<Rightarrow> event list \<times> outcome" where
  "main P api a fs s =
     (case main_endpoint api a of
        (printed, Inl stop) \<Rightarrow> (printed, stop)
      | (printed, Inr (schm, domain, prt)) \<Rightarrow>
          (let chunk_object_count = or_default (chunkobjects a) 250;
               num_chunks_per_job = or_default (chunksinjob a) 50;
               c = main_client api a schm domain prt
           in case get_version P c s of
                (Inl e, s1) \<Rightarrow>
                  (printed @ connecting schm domain prt @ [Print auth_failed], SystemExit)
              | (Inr v, s1) \<Rightarrow>
                  (case discover P fs (location a) of
                     (fs1, found, files) \<Rightarrow>
                       (case process_files P fs1 c chunk_object_count num_chunks_per_job files s1 of
                          (processed, res, s2) \<Rightarrow>
                            (printed @ connecting schm domain prt @ authenticated v @ found @ processed,
                             res)))))"

section \<open>Notions the properties are stated with\<close>

text \<open>A document exposes a top-level member: it is an object and has the key.\<close>

fun exposes :: "string \<Rightarrow> json \<Rightarrow> bool" where
  "exposes key (JObj items) \<longleftrightarrow> key \<in> set (map fst items)"
| "exposes key v \<longleftrightarrow> False"

text \<open>The names of the regular files in a directory and below it, a directory's own first.\<close>

fun regular_files :: "fsnode \<Rightarrow> string list" where
  "regular_files (File bs) = []"
| "regular_files (Dir es) =
     map fst (filter (\<lambda>e. \<not> is_Dir (snd e)) es)
     @ concat (map (\<lambda>e. regular_files (snd e)) (filter (\<lambda>e. is_Dir (snd e)) es))"

text \<open>The documents submitted in a trace, in order, and the network calls of a trace.\<close>

fun submitted :: "event list \<Rightarrow> json list" where
  "submitted [] = []"
| "submitted (ChunkAndSubmit d n m # evs) = d # submitted evs"
| "submitted (e # evs) = submitted evs"

fun network_call :: "event \<Rightarrow> bool" where
  "network_call GetVersion = True"
| "network_call (ChunkAndSubmit d n m) = True"
| "network_call e = False"

fun file_work :: "event \<Rightarrow> bool" where
  "file_work (OpenText path enc) = True"
| "file_work (ChunkAndSubmit d n m) = True"
| "file_work e = False"

text \<open>
  The platform's default codec does not hide the marker from the JSON reader: whatever
  text it makes of bytes that begin with the marker, \<^verbatim>\<open>json.loads\<close> refuses. This
  holds where the default encoding is UTF-8 (the marker decodes to U+FEFF), and for the
  8-bit code pages (the marker decodes to three letters no JSON text starts with).
\<close>

definition marker_refused :: "'s platform \<Rightarrow> bool" where
  "marker_refused P \<longleftrightarrow>
     (\<forall>bs t. locale_decode P (BOM @ bs) = Some t \<longrightarrow> json_loads P t = Inl JSONDecodeError)"

section \<open>A sample platform\<close>

text \<open>
  A small platform to run the script on: the default encoding is UTF-8 (the codec here
  knows ASCII and the marker), the JSON decoder knows two documents, the archive
  reader knows two archives and extracts the first (two files with plain names, where
  no directory is in their way) and nothing else, the service accepts one token key
  and counts what it is sent.
\<close>

definition a_json :: string where
  \<open>a_json = ''{"data":[1,2,3],"meta":{}}''\<close>

definition b_json :: string where
  \<open>b_json = ''{"computers":[],"meta":{}}''\<close>

definition a_doc :: json where
  "a_doc = JObj [(''data'', JArr [JInt 1, JInt 2, JInt 3]), (''meta'', JObj [])]"

definition b_doc :: json where
  "b_doc = JObj [(''computers'', JArr []), (''meta'', JObj [])]"

definition sample_valid :: "string \<Rightarrow> bool" where
  "sample_valid bs \<longleftrightarrow>
     list_all (\<lambda>c. of_char c < (128 :: nat)) (if startswith bs BOM then drop 3 bs else bs)"

definition sample_platform :: "nat platform" where
  "sample_platform =
     \<lparr>locale_decode = (\<lambda>bs. if sample_valid bs then Some bs else None),
      utf_8_valid = sample_valid,
      json_decode = (\<lambda>t. if t = a_json then Some a_doc
                          else if t = b_json then Some b_doc else None),
      zip_members = (\<lambda>bs. if bs = ''PK loot'' then
                              Some [(''a.json'', ZFile a_json), (''b.json'', ZFile b_json)]
                            else if bs = ''PK locked'' then Some [(''a.json'', ZEncrypted)]
                            else None),
      extractall = (\<lambda>fs ms. if ms = [(''a.json'', ZFile a_json), (''b.json'', ZFile b_json)]
                                   \<and> list_all (\<lambda>name. case fs name of
                                                          Some (Dir es) \<Rightarrow> False | _ \<Rightarrow> True)
                                                [''a.json'', ''b.json'']
                               then (fs(''a.json'' \<mapsto> File a_json, ''b.json'' \<mapsto> File b_json),
                                     None)
                               else (fs, Some RuntimeError)),
      get_version = (\<lambda>c s. if token_key c = ''key''
                            then (Inr \<lparr>api_version = ''v2'', server_version = ''v5''\<rparr>, s)
                            else (Inl ClientError, s)),
      chunk_and_submit_data = (\<lambda>c d n m s. (None, Suc s))\<rparr>"

definition sample_fs :: filesystem where
  "sample_fs =
     [''loot'' \<mapsto> Dir [(''a.json'', File a_json), (''notes.txt'', File ''todo''),
                       (''b.json'', File b_json)],
      ''loot/a.json'' \<mapsto> File a_json,
      ''loot/notes.txt'' \<mapsto> File ''todo'',
      ''loot/b.json'' \<mapsto> File b_json,
      ''loot.zip'' \<mapsto> File ''PK loot'',
      ''loot.bin'' \<mapsto> File ''PK loot'',
      ''locked.zip'' \<mapsto> File ''PK locked'',
      ''old.zip'' \<mapsto> Dir [(''a.json'', File a_json)],
      ''old.zip/a.json'' \<mapsto> File a_json,
      ''bom.json'' \<mapsto> File (BOM @ a_json),
      ''bad.json'' \<mapsto> File ''{'',
      ''mixed'' \<mapsto> Dir [(''a.json'', File a_json), (''bad.json'', File ''{''),
                        (''b.json'', File b_json)],
      ''mixed/a.json'' \<mapsto> File a_json,
      ''mixed/bad.json'' \<mapsto> File ''{'',
      ''mixed/b.json'' \<mapsto> File b_json]"

definition sample_api :: api_info where
  "sample_api =
     \<lparr>BHCE_TOKEN_ID = ''id'', BHCE_TOKEN_KEY = ''key'', BHCE_DOMAIN = ''127.0.0.1'',
      BHCE_PORT = ''8080'', BHCE_SCHEME = ''http''\<rparr>"

definition sample_args :: args where
  "sample_args =
     \<lparr>location = ''loot'', url = None, tokenkey = None, tokenid = None,
      chunkobjects = 2, chunksinjob = 1\<rparr>"

section \<open>Splitting strings\<close>

lemma str_split_not_Nil: "str_split sep s \<noteq> []"
  by (induction s) (auto simp: Let_def)

lemma str_split_free: "sep \<notin> set s \<Longrightarrow> str_split sep s = [s]"
  by (induction s) (auto simp: Let_def)

lemma str_split_append: "sep \<notin> set s \<Longrightarrow> str_split sep (s @ sep # t) = s # str_split sep t"
  by (induction s) (auto simp: Let_def)

lemma main_stops: "main_endpoint api a = (printed, Inl stop) \<Longrightarrow> main P api a fs s = (printed, stop)"
  by (simp add: main_def)

lemma split_pattern:
  assumes "CHR '':'' \<notin> set schm" "CHR '':'' \<notin> set domain" "CHR '':'' \<notin> set prt"
  shows "str_split CHR '':'' (schm @ ''://'' @ domain @ '':'' @ prt) = [schm, ''//'' @ domain, prt]"
proof -
  have "str_split CHR '':'' (schm @ CHR '':'' # (''//'' @ domain) @ CHR '':'' # prt)
        = schm # str_split CHR '':'' ((''//'' @ domain) @ CHR '':'' # prt)"
    using assms(1) by (rule str_split_append)
  also have "str_split CHR '':'' ((''//'' @ domain) @ CHR '':'' # prt) = (''//'' @ domain) # str_split CHR '':'' prt"
    using assms(2) by (intro str_split_append) simp
  also have "str_split CHR '':'' prt = [prt]"
    using assms(3) by (rule str_split_free)
  finally show ?thesis by simp
qed

lemma split_slashes:
  assumes "CHR ''/'' \<notin> set domain"
  shows "str_split CHR ''/'' (''//'' @ domain) = [[], [], domain]"
  using assms by (simp add: Let_def str_split_free)

section \<open>Resolving the endpoint\<close>

text \<open>
  C1, as the script has it. For a URL override that is not empty: a URL of the shape
  \<^verbatim>\<open>scheme://host:port\<close> resolves to its scheme, host and port; more generally, when
  the split on \<^verbatim>\<open>:\<close> has exactly three segments and the second has at least three
  parts between its \<^verbatim>\<open>/\<close>, resolution yields the first segment, the third part of the
  second segment and the third segment. When the split has any other number of
  segments, the usage line is printed and the run ends by \<^verbatim>\<open>exit()\<close> with no call
  to the client. An empty override counts as none: the defaults are taken.
\<close>

theorem url_override_resolution:
  assumes "url a = Some u"
  shows "(\<forall>schm domain prt.
            u = schm @ ''://'' @ domain @ '':'' @ prt \<and> CHR '':'' \<notin> set (schm @ domain @ prt)
              \<and> CHR ''/'' \<notin> set domain
            \<longrightarrow> main_endpoint api a = ([], Inr (schm, domain, prt)))
       \<and> (u \<noteq> [] \<and> length (str_split CHR '':'' u) = 3
            \<and> 3 \<le> length (str_split CHR ''/'' (str_split CHR '':'' u ! 1))
          \<longrightarrow> main_endpoint api a =
                ([], Inr (str_split CHR '':'' u ! 0,
                          str_split CHR ''/'' (str_split CHR '':'' u ! 1) ! 2,
                          str_split CHR '':'' u ! 2)))
       \<and> (u \<noteq> [] \<and> length (str_split CHR '':'' u) \<noteq> 3
          \<longrightarrow> main_endpoint api a = ([Print url_usage], Inl SystemExit)
              \<and> main P api a fs s = ([Print url_usage], SystemExit)
              \<and> \<not> list_ex network_call (fst (main P api a fs s)))
       \<and> (u = []
          \<longrightarrow> main_endpoint api a = ([], Inr (BHCE_SCHEME api, BHCE_DOMAIN api, BHCE_PORT api)))"
proof -
  have pattern: "main_endpoint api a = ([], Inr (schm, domain, prt))"
    if h: "u = schm @ ''://'' @ domain @ '':'' @ prt \<and> CHR '':'' \<notin> set (schm @ domain @ prt)
              \<and> CHR ''/'' \<notin> set domain"
    for schm domain prt
  proof -
    have sp: "str_split CHR '':'' u = [schm, ''//'' @ domain, prt]"
      using h split_pattern[of schm domain prt] by simp
    have sl: "str_split CHR ''/'' (''//'' @ domain) = [[], [], domain]"
      using h split_slashes by blast
    have "u \<noteq> []" using h by simp
    then show ?thesis
      using assms sl by (simp add: main_endpoint_def sp py_index_def)
  qed
  have three: "main_endpoint api a =
                ([], Inr (str_split CHR '':'' u ! 0,
                          str_split CHR ''/'' (str_split CHR '':'' u ! 1) ! 2,
                          str_split CHR '':'' u ! 2))"
    if "u \<noteq> [] \<and> length (str_split CHR '':'' u) = 3
            \<and> 3 \<le> length (str_split CHR ''/'' (str_split CHR '':'' u ! 1))"
    using that assms by (simp add: main_endpoint_def py_index_def)
  have other: "main_endpoint api a = ([Print url_usage], Inl SystemExit)
              \<and> main P api a fs s = ([Print url_usage], SystemExit)
              \<and> \<not> list_ex network_call (fst (main P api a fs s))"
    if h: "u \<noteq> [] \<and> length (str_split CHR '':'' u) \<noteq> 3"
  proof -
    have e: "main_endpoint api a = ([Print url_usage], Inl SystemExit)"
      using h assms by (simp add: main_endpoint_def)
    then have m: "main P api a fs s = ([Print url_usage], SystemExit)"
      by (rule main_stops)
    show ?thesis by (simp add: e m)
  qed
  have empty: "main_endpoint api a = ([], Inr (BHCE_SCHEME api, BHCE_DOMAIN api, BHCE_PORT api))"
    if "u = []"
    using that assms by (simp add: main_endpoint_def)
  show ?thesis using pattern three other empty by blast
qed

theorem url_override_resolution_witness:
  "main_endpoint sample_api (sample_args\<lparr>url := Some ''https://bloodhound.absalom.org:443''\<rparr>)
     = ([], Inr (''https'', ''bloodhound.absalom.org'', ''443''))
   \<and> main sample_platform sample_api (sample_args\<lparr>url := Some ''bloodhound.absalom.org''\<rparr>) sample_fs 0
     = ([Print url_usage], SystemExit)
   \<and> main_endpoint sample_api (sample_args\<lparr>url := Some []\<rparr>)
     = ([], Inr (''http'', ''127.0.0.1'', ''8080''))"
  using url_override_resolution [of "sample_args\<lparr>url := Some ''https://bloodhound.absalom.org:443''\<rparr>"
            "''https://bloodhound.absalom.org:443''" sample_api sample_platform sample_fs 0]
        url_override_resolution [of "sample_args\<lparr>url := Some ''bloodhound.absalom.org''\<rparr>"
            "''bloodhound.absalom.org''" sample_api sample_platform sample_fs 0]
        url_override_resolution [of "sample_args\<lparr>url := Some []\<rparr>" "[]" sample_api]
  by (simp add: Let_def sample_api_def)

theorem url_override_resolution_counterexample:
  "length (str_split CHR '':'' ''a:b:c'') = 3
   \<and> main sample_platform sample_api (sample_args\<lparr>url := Some ''a:b:c''\<rparr>) sample_fs 0
       = ([], Raised IndexError)
   \<and> length (str_split CHR '':'' []) = 1
   \<and> main_endpoint sample_api (sample_args\<lparr>url := Some []\<rparr>)
       = ([], Inr (''http'', ''127.0.0.1'', ''8080''))"
  by (simp add: main_def main_endpoint_def py_index_def sample_api_def)

section \<open>The shape of a run\<close>

lemma main_endpoint_cases:
  "main_endpoint api a = ([Print url_usage], Inl SystemExit)
   \<or> main_endpoint api a = ([], Inl (Raised IndexError))
   \<or> (\<exists>schm domain prt. main_endpoint api a = ([], Inr (schm, domain, prt)))"
  by (simp add: main_endpoint_def py_index_def Let_def)

lemma main_probe_fails:
  assumes "main_endpoint api a = (printed, Inr (schm, domain, prt))"
    and "fst (get_version P (main_client api a schm domain prt) s) = Inl e"
  shows "main P api a fs s = (printed @ connecting schm domain prt @ [Print auth_failed], SystemExit)"
  using assms by (cases "get_version P (main_client api a schm domain prt) s") (simp add: main_def)

lemma main_probe_ok:
  assumes "main_endpoint api a = (printed, Inr (schm, domain, prt))"
    and "get_version P (main_client api a schm domain prt) s = (Inr v, s1)"
    and "discover P fs (location a) = (fs1, found, files)"
    and "process_files P fs1 (main_client api a schm domain prt)
           (or_default (chunkobjects a) 250) (or_default (chunksinjob a) 50) files s1
         = (processed, res, s2)"
  shows "main P api a fs s =
           (printed @ connecting schm domain prt @ authenticated v @ found @ processed, res)"
  using assms by (simp add: main_def)

lemma load_file_opens: "set (fst (load_file P fs f)) \<subseteq> {OpenText f Locale, OpenText f Utf8Sig}"
  by (auto simp: load_file_def split: sum.splits)

lemma process_files_append:
  "process_files P fs c n m (xs @ ys) s =
     (case process_files P fs c n m xs s of
        (tr, Returned, s') \<Rightarrow>
          (case process_files P fs c n m ys s' of (tr', res, s'') \<Rightarrow> (tr @ tr', res, s''))
      | (tr, res, s') \<Rightarrow> (tr, res, s'))"
proof (induction xs arbitrary: s)
  case Nil
  show ?case by (simp split: prod.splits)
next
  case (Cons f xs)
  show ?case
    by (simp add: Cons.IH split: prod.splits sum.splits option.splits outcome.splits)
qed

lemma submitted_append: "submitted (xs @ ys) = submitted xs @ submitted ys"
  by (induction xs rule: submitted.induct) simp_all

lemma submitted_none: "\<not> list_ex file_work evs \<Longrightarrow> submitted evs = []"
  by (induction evs rule: submitted.induct) simp_all

lemma load_file_submitted: "submitted (fst (load_file P fs f)) = []"
  by (simp add: load_file_def split: sum.splits)

lemma process_files_submitted:
  "\<exists>k\<le>length files.
     map Inr (submitted (fst (process_files P fs c n m files s)))
       = map (\<lambda>f. snd (load_file P fs f)) (take k files)
     \<and> (fst (snd (process_files P fs c n m files s)) = Returned \<longrightarrow> k = length files)"
proof (induction files arbitrary: s)
  case Nil
  show ?case by simp
next
  case (Cons f files)
  obtain opened r where lf: "load_file P fs f = (opened, r)" by (cases "load_file P fs f")
  have sub: "submitted opened = []" using load_file_submitted[of P fs f] lf by simp
  show ?case
  proof (cases r)
    case (Inl e)
    then have "submitted (fst (process_files P fs c n m (f # files) s)) = []"
      and "fst (snd (process_files P fs c n m (f # files) s)) = Raised e"
      using lf sub by simp_all
    then show ?thesis by (intro exI[of _ 0]) simp
  next
    case (Inr d)
    obtain x s' where cs: "chunk_and_submit_data P c d n m s = (x, s')"
      by (cases "chunk_and_submit_data P c d n m s")
    show ?thesis
    proof (cases x)
      case (Some e)
      then have "submitted (fst (process_files P fs c n m (f # files) s)) = [d]"
        and "fst (snd (process_files P fs c n m (f # files) s)) = Raised e"
        using lf Inr cs sub by (simp_all add: submitted_append)
      then show ?thesis using lf Inr by (intro exI[of _ 1]) simp
    next
      case None
      obtain k where k: "k \<le> length files"
        "map Inr (submitted (fst (process_files P fs c n m files s')))
           = map (\<lambda>f. snd (load_file P fs f)) (take k files)"
        "fst (snd (process_files P fs c n m files s')) = Returned \<longrightarrow> k = length files"
        using Cons.IH[of s'] by blast
      have "submitted (fst (process_files P fs c n m (f # files) s))
              = d # submitted (fst (process_files P fs c n m files s'))"
        and "fst (snd (process_files P fs c n m (f # files) s))
              = fst (snd (process_files P fs c n m files s'))"
        using lf Inr cs None sub by (simp_all add: submitted_append split: prod.splits)
      then show ?thesis using lf Inr k by (intro exI[of _ "Suc k"]) simp
    qed
  qed
qed

lemma connecting_events:
  "GetVersion \<in> set (connecting schm domain prt)"
  "\<not> list_ex file_work (connecting schm domain prt)"
  "submitted (connecting schm domain prt) = []"
  by (simp_all add: connecting_def)

lemma authenticated_events:
  "\<not> list_ex file_work (authenticated v)" "submitted (authenticated v) = []"
  by (simp_all add: authenticated_def)

lemma discover_events:
  "discover P fs loc = (fs1, found, files) \<Longrightarrow> found = [] \<or> found = [Print (zip_error loc)]"
  by (auto simp: discover_def extract_zip_def list_files_in_directory_def
           split: if_splits sum.splits prod.splits option.splits)

lemma discover_quiet:
  assumes "discover P fs loc = (fs1, found, files)"
  shows "\<not> list_ex file_work found" and "submitted found = []"
  using discover_events[OF assms] by auto

lemma main_shape:
  "(\<exists>printed stop. main_endpoint api a = (printed, Inl stop) \<and> main P api a fs s = (printed, stop)
       \<and> (printed = [] \<or> printed = [Print url_usage]))
   \<or> (\<exists>schm domain prt e. main_endpoint api a = ([], Inr (schm, domain, prt))
       \<and> fst (get_version P (main_client api a schm domain prt) s) = Inl e
       \<and> main P api a fs s = (connecting schm domain prt @ [Print auth_failed], SystemExit))
   \<or> (\<exists>schm domain prt v s1 fs1 found files processed res s2.
         main_endpoint api a = ([], Inr (schm, domain, prt))
       \<and> get_version P (main_client api a schm domain prt) s = (Inr v, s1)
       \<and> discover P fs (location a) = (fs1, found, files)
       \<and> process_files P fs1 (main_client api a schm domain prt)
             (or_default (chunkobjects a) 250) (or_default (chunksinjob a) 50) files s1
           = (processed, res, s2)
       \<and> main P api a fs s
           = (connecting schm domain prt @ authenticated v @ found @ processed, res))"
proof -
  consider "main_endpoint api a = ([Print url_usage], Inl SystemExit)"
    | "main_endpoint api a = ([], Inl (Raised IndexError))"
    | schm domain prt where "main_endpoint api a = ([], Inr (schm, domain, prt))"
    using main_endpoint_cases[of api a] by blast
  then show ?thesis
  proof cases
    case 1
    then show ?thesis by (simp add: main_def)
  next
    case 2
    then show ?thesis by (simp add: main_def)
  next
    case 3
    let ?c = "main_client api a schm domain prt"
    obtain r s1 where gv: "get_version P ?c s = (r, s1)" by (cases "get_version P ?c s")
    show ?thesis
    proof (cases r)
      case (Inl e)
      then have "main P api a fs s = ([] @ connecting schm domain prt @ [Print auth_failed], SystemExit)"
        using 3 gv by (intro main_probe_fails) simp_all
      then show ?thesis using 3 gv Inl by simp
    next
      case (Inr v)
      obtain fs1 found files where d: "discover P fs (location a) = (fs1, found, files)"
        by (cases "discover P fs (location a)")
      obtain processed res s2 where p: "process_files P fs1 ?c
             (or_default (chunkobjects a) 250) (or_default (chunksinjob a) 50) files s1
           = (processed, res, s2)"
        by (cases "process_files P fs1 ?c
             (or_default (chunkobjects a) 250) (or_default (chunksinjob a) 50) files s1")
      have "main P api a fs s
           = ([] @ connecting schm domain prt @ authenticated v @ found @ processed, res)"
        using 3 gv Inr d p by (intro main_probe_ok) simp_all
      then show ?thesis using 3 gv Inr d p by simp
    qed
  qed
qed

lemma main_no_files:
  assumes "main_endpoint api a = ([], Inr (schm, domain, prt))"
    and "get_version P (main_client api a schm domain prt) s = (Inr v, s1)"
    and "discover P fs (location a) = (fs1, found, [])"
  shows "main P api a fs s = (connecting schm domain prt @ authenticated v @ found, Returned)"
  using main_probe_ok[OF assms(1,2,3), of "[]" Returned s1] by simp

lemma before_in_prefix:
  assumes "xs @ ys = pre @ e # post" and "e \<notin> set xs"
  shows "set xs \<subseteq> set pre"
proof -
  from assms(1) consider us where "xs = pre @ us" "us @ ys = e # post"
    | us where "xs @ us = pre" "ys = us @ e # post"
    by (auto simp: append_eq_append_conv2)
  then show ?thesis
  proof cases
    case 1
    then show ?thesis using assms(2) by (cases us) auto
  next
    case 2
    then show ?thesis by auto
  qed
qed

lemma submit_is_file_work: "\<not> list_ex file_work evs \<Longrightarrow> ChunkAndSubmit d n m \<notin> set evs"
  by (auto simp: list_ex_iff)

section \<open>Runs on the sample platform\<close>

lemma sample_run:
  "main sample_platform sample_api (sample_args\<lparr>chunkobjects := n, chunksinjob := m\<rparr>) sample_fs 0
     = (connecting ''http'' ''127.0.0.1'' ''8080''
        @ authenticated \<lparr>api_version = ''v2'', server_version = ''v5''\<rparr>
        @ [Print (loading ''loot/a.json''), OpenText ''loot/a.json'' Locale,
           ChunkAndSubmit a_doc (or_default n 250) (or_default m 50),
           Print (loading ''loot/b.json''), OpenText ''loot/b.json'' Locale,
           ChunkAndSubmit b_doc (or_default n 250) (or_default m 50)],
        Returned)"
  by (simp add: main_def main_endpoint_def sample_args_def sample_api_def main_client_def
      main_token_id_def main_token_key_def sample_platform_def discover_def endswith_def
      list_files_in_directory_def os_walk_def sample_fs_def path_join_def startswith_def
      load_file_def json_load_def read_text_def decode_def json_loads_def BOM_def sample_valid_def
      a_json_def b_json_def Let_def)

lemma sample_run_refused:
  "main sample_platform sample_api (sample_args\<lparr>tokenkey := Some ''nope''\<rparr>) sample_fs 0
     = (connecting ''http'' ''127.0.0.1'' ''8080'' @ [Print auth_failed], SystemExit)"
  by (simp add: main_def main_endpoint_def sample_args_def sample_api_def main_client_def
      main_token_id_def main_token_key_def sample_platform_def)

lemma sample_args_fields:
  "location sample_args = ''loot''" "url sample_args = None" "tokenkey sample_args = None"
  "tokenid sample_args = None" "chunkobjects sample_args = 2" "chunksinjob sample_args = 1"
  by (simp_all add: sample_args_def)

lemma sample_endpoint:
  "url a = None \<Longrightarrow> main_endpoint sample_api a = ([], Inr (''http'', ''127.0.0.1'', ''8080''))"
  by (simp add: main_endpoint_def sample_api_def)

lemma sample_probe:
  "get_version sample_platform (main_client sample_api a schm domain prt) s
     = (if main_token_key sample_api a = ''key''
        then (Inr \<lparr>api_version = ''v2'', server_version = ''v5''\<rparr>, s)
        else (Inl ClientError, s))"
  by (simp add: main_client_def sample_platform_def)

lemma sample_token_key:
  "main_token_key sample_api a = (if truthy (tokenkey a) then the (tokenkey a) else ''key'')"
  by (simp add: main_token_key_def sample_api_def)

lemma sample_discover:
  "discover sample_platform sample_fs ''loot'' = (sample_fs, [], [''loot/a.json'', ''loot/b.json''])"
  "discover sample_platform sample_fs ''loot.bin'' = (sample_fs, [], [])"
  "discover sample_platform sample_fs ''missing'' = (sample_fs, [], [])"
  "discover sample_platform sample_fs ''old.zip'' = (sample_fs, [Print (zip_error ''old.zip'')], [])"
  "discover sample_platform sample_fs ''locked.zip'' = (sample_fs, [Print (zip_error ''locked.zip'')], [])"
  by (simp_all add: discover_def endswith_def list_files_in_directory_def os_walk_def sample_fs_def
       path_join_def startswith_def extract_zip_def ZipFile_def sample_platform_def)

lemma sample_discover_zip:
  "discover sample_platform sample_fs ''loot.zip''
     = (sample_fs(''a.json'' \<mapsto> File a_json, ''b.json'' \<mapsto> File b_json), [], [''a.json'', ''b.json''])"
  by (simp add: discover_def endswith_def extract_zip_def ZipFile_def sample_platform_def sample_fs_def)

lemma sample_load:
  "load_file sample_platform sample_fs ''loot/a.json'' = ([OpenText ''loot/a.json'' Locale], Inr a_doc)"
  "load_file sample_platform sample_fs ''loot/b.json'' = ([OpenText ''loot/b.json'' Locale], Inr b_doc)"
  "load_file sample_platform sample_fs ''bom.json''
     = ([OpenText ''bom.json'' Locale, OpenText ''bom.json'' Utf8Sig], Inr a_doc)"
  "load_file sample_platform sample_fs ''bad.json''
     = ([OpenText ''bad.json'' Locale, OpenText ''bad.json'' Utf8Sig], Inl JSONDecodeError)"
  by (simp_all add: load_file_def json_load_def read_text_def decode_def json_loads_def BOM_def
       sample_valid_def sample_platform_def sample_fs_def startswith_def a_json_def b_json_def)

section \<open>The probe comes first, the files follow in order\<close>

text \<open>
  C8. (1) Whenever a run submits a document, the call \<^verbatim>\<open>get_version\<close> came earlier in
  the run and returned a version. (2) When the probe fails, the run ends by \<^verbatim>\<open>exit()\<close>
  and has opened no file and submitted nothing. (3) The documents submitted are, in
  order, the documents loaded from the first \<open>k\<close> discovered files, for some \<open>k\<close>; when
  the run returns, \<open>k\<close> is the number of discovered files.
\<close>

theorem probe_precedes_submission:
  "(fst (main P api a fs s) = pre @ ChunkAndSubmit d n m # post
       \<longrightarrow> GetVersion \<in> set pre
           \<and> (\<exists>schm domain prt v s1.
                 main_endpoint api a = ([], Inr (schm, domain, prt))
               \<and> get_version P (main_client api a schm domain prt) s = (Inr v, s1)))
   \<and> (main_endpoint api a = ([], Inr (schm, domain, prt))
       \<and> fst (get_version P (main_client api a schm domain prt) s) = Inl e
       \<longrightarrow> snd (main P api a fs s) = SystemExit
           \<and> \<not> list_ex file_work (fst (main P api a fs s)))
   \<and> (main_endpoint api a = ([], Inr (schm, domain, prt))
       \<and> get_version P (main_client api a schm domain prt) s = (Inr v, s1)
       \<and> discover P fs (location a) = (fs1, found, files)
       \<longrightarrow> (\<exists>k\<le>length files.
              map Inr (submitted (fst (main P api a fs s)))
                = map (\<lambda>f. snd (load_file P fs1 f)) (take k files)
              \<and> (snd (main P api a fs s) = Returned \<longrightarrow> k = length files)))"
proof -
  have probe_first: "GetVersion \<in> set pre
           \<and> (\<exists>schm domain prt v s1.
                 main_endpoint api a = ([], Inr (schm, domain, prt))
               \<and> get_version P (main_client api a schm domain prt) s = (Inr v, s1))"
    if tr: "fst (main P api a fs s) = pre @ ChunkAndSubmit d n m # post"
  proof -
    have inside: "ChunkAndSubmit d n m \<in> set (fst (main P api a fs s))" using tr by simp
    consider
      (stopped) printed stop where "main P api a fs s = (printed, stop)"
          "printed = [] \<or> printed = [Print url_usage]"
    | (refused) schm domain prt where
          "main P api a fs s = (connecting schm domain prt @ [Print auth_failed], SystemExit)"
    | (accepted) schm domain prt v s1 rest res where
          "main_endpoint api a = ([], Inr (schm, domain, prt))"
          "get_version P (main_client api a schm domain prt) s = (Inr v, s1)"
          "main P api a fs s = (connecting schm domain prt @ rest, res)"
      using main_shape[of api a P fs s] by blast
    then show ?thesis
    proof cases
      case stopped
      then show ?thesis using inside by auto
    next
      case refused
      then show ?thesis
        using inside submit_is_file_work[OF connecting_events(2), of d n m schm domain prt] by auto
    next
      case accepted
      have "connecting schm domain prt @ rest = pre @ ChunkAndSubmit d n m # post"
        using tr accepted(3) by simp
      then have "set (connecting schm domain prt) \<subseteq> set pre"
        using submit_is_file_work[OF connecting_events(2)] by (rule before_in_prefix)
      then show ?thesis using connecting_events(1) accepted(1,2) by blast
    qed
  qed
  have refused: "snd (main P api a fs s) = SystemExit
           \<and> \<not> list_ex file_work (fst (main P api a fs s))"
    if h: "main_endpoint api a = ([], Inr (schm, domain, prt))
       \<and> fst (get_version P (main_client api a schm domain prt) s) = Inl e"
  proof -
    have m: "main P api a fs s = ([] @ connecting schm domain prt @ [Print auth_failed], SystemExit)"
      using h by (intro main_probe_fails) simp_all
    show ?thesis using connecting_events(2)[of schm domain prt] by (simp add: m)
  qed
  have in_order: "\<exists>k\<le>length files.
              map Inr (submitted (fst (main P api a fs s)))
                = map (\<lambda>f. snd (load_file P fs1 f)) (take k files)
              \<and> (snd (main P api a fs s) = Returned \<longrightarrow> k = length files)"
    if h: "main_endpoint api a = ([], Inr (schm, domain, prt))
       \<and> get_version P (main_client api a schm domain prt) s = (Inr v, s1)
       \<and> discover P fs (location a) = (fs1, found, files)"
  proof -
    let ?run = "process_files P fs1 (main_client api a schm domain prt)
               (or_default (chunkobjects a) 250) (or_default (chunksinjob a) 50) files s1"
    obtain processed res s2 where p: "?run = (processed, res, s2)" by (cases ?run)
    have m: "main P api a fs s
             = ([] @ connecting schm domain prt @ authenticated v @ found @ processed, res)"
      using h p by (intro main_probe_ok) simp_all
    have "submitted (fst (main P api a fs s)) = submitted (fst ?run)"
      and "snd (main P api a fs s) = fst (snd ?run)"
      using h discover_quiet(2)[of P fs "location a" fs1 found files]
      by (simp_all add: m p submitted_append connecting_events authenticated_events)
    then show ?thesis
      using process_files_submitted[of files P fs1 "main_client api a schm domain prt"
              "or_default (chunkobjects a) 250" "or_default (chunksinjob a) 50" s1]
      by simp
  qed
  show ?thesis using probe_first refused in_order by blast
qed

theorem probe_precedes_submission_witness:
  "GetVersion \<in> set (connecting ''http'' ''127.0.0.1'' ''8080''
        @ authenticated \<lparr>api_version = ''v2'', server_version = ''v5''\<rparr>
        @ [Print (loading ''loot/a.json''), OpenText ''loot/a.json'' Locale])
   \<and> snd (main sample_platform sample_api (sample_args\<lparr>tokenkey := Some ''nope''\<rparr>) sample_fs 0)
       = SystemExit
   \<and> \<not> list_ex file_work
         (fst (main sample_platform sample_api (sample_args\<lparr>tokenkey := Some ''nope''\<rparr>) sample_fs 0))
   \<and> submitted (fst (main sample_platform sample_api
                         (sample_args\<lparr>chunkobjects := 2, chunksinjob := 1\<rparr>) sample_fs 0))
       = [a_doc, b_doc]"
proof -
  let ?a = "sample_args\<lparr>chunkobjects := 2, chunksinjob := 1\<rparr>"
  let ?no = "sample_args\<lparr>tokenkey := Some ''nope''\<rparr>"
  let ?v = "\<lparr>api_version = ''v2'', server_version = ''v5''\<rparr>"
  let ?pre = "connecting ''http'' ''127.0.0.1'' ''8080'' @ authenticated ?v
        @ [Print (loading ''loot/a.json''), OpenText ''loot/a.json'' Locale]"
  let ?post = "[Print (loading ''loot/b.json''), OpenText ''loot/b.json'' Locale,
               ChunkAndSubmit b_doc 2 1]"
  have 1: "GetVersion \<in> set ?pre"
    using probe_precedes_submission
      [where P = sample_platform and api = sample_api and a = ?a and fs = sample_fs and s = 0
         and pre = ?pre and d = a_doc and n = 2 and m = 1 and post = ?post]
    by (simp add: sample_run or_default_def)
  have 2: "snd (main sample_platform sample_api ?no sample_fs 0) = SystemExit
     \<and> \<not> list_ex file_work (fst (main sample_platform sample_api ?no sample_fs 0))"
    using probe_precedes_submission
      [where P = sample_platform and api = sample_api and a = ?no and fs = sample_fs and s = 0
         and schm = "''http''" and domain = "''127.0.0.1''" and prt = "''8080''" and e = ClientError]
    by (simp add: sample_endpoint sample_probe sample_token_key sample_args_fields)
  have 3: "submitted (fst (main sample_platform sample_api ?a sample_fs 0)) = [a_doc, b_doc]"
    using probe_precedes_submission
      [where P = sample_platform and api = sample_api and a = ?a and fs = sample_fs and s = 0
         and schm = "''http''" and domain = "''127.0.0.1''" and prt = "''8080''"
         and v = ?v and ?s1.0 = 0 and ?fs1.0 = sample_fs and found = "[]"
         and files = "[''loot/a.json'', ''loot/b.json'']"]
    by (simp add: sample_run sample_endpoint sample_probe sample_token_key sample_args_fields
          sample_discover sample_load or_default_def submitted_append connecting_events
          authenticated_events)
  show ?thesis using 1 2 3 by blast
qed

lemma sample_run_bad_url:
  "main sample_platform sample_api (sample_args\<lparr>url := Some ''bloodhound.absalom.org''\<rparr>) sample_fs 0
     = ([Print url_usage], SystemExit)"
  by (simp add: main_def main_endpoint_def Let_def)

section \<open>How a fatal error ends the run\<close>

lemma process_files_no_exit: "fst (snd (process_files P fs c n m files s)) \<noteq> SystemExit"
proof (induction files arbitrary: s)
  case Nil
  show ?case by simp
next
  case (Cons f files)
  show ?case
    by (auto split: prod.splits sum.splits option.splits) (metis Cons.IH fst_conv snd_conv)
qed

lemma sample_run_three_segments:
  "main sample_platform sample_api (sample_args\<lparr>url := Some ''a:b:c''\<rparr>) sample_fs 0
     = ([], Raised IndexError)"
  by (simp add: main_def main_endpoint_def py_index_def)

text \<open>
  C7, as the script has it. The two fatal errors the script reports, a URL override
  (not empty) whose split on \<^verbatim>\<open>:\<close> does not have exactly three segments and a failed
  probe, each print one line and end the run through \<^verbatim>\<open>exit()\<close>, called without a
  status: the first prints the usage line and nothing else, the second prints, after
  the connection lines, that the authentication failed. The exit status of such a run
  is 0. No run ends through \<^verbatim>\<open>exit()\<close> in another way.
\<close>

theorem fatal_errors_exit:
  "(url a = Some u \<and> u \<noteq> [] \<and> length (str_split CHR '':'' u) \<noteq> 3
      \<longrightarrow> main P api a fs s = ([Print url_usage], SystemExit)
          \<and> exit_status (snd (main P api a fs s)) = 0)
   \<and> (main_endpoint api a = ([], Inr (schm, domain, prt))
       \<and> fst (get_version P (main_client api a schm domain prt) s) = Inl e
      \<longrightarrow> main P api a fs s = (connecting schm domain prt @ [Print auth_failed], SystemExit)
          \<and> exit_status (snd (main P api a fs s)) = 0)
   \<and> (snd (main P api a fs s) = SystemExit
      \<longrightarrow> fst (main P api a fs s) = [Print url_usage]
          \<or> (\<exists>schm domain prt.
                fst (main P api a fs s) = connecting schm domain prt @ [Print auth_failed]))"
proof -
  have usage: "main P api a fs s = ([Print url_usage], SystemExit)
          \<and> exit_status (snd (main P api a fs s)) = 0"
    if "url a = Some u \<and> u \<noteq> [] \<and> length (str_split CHR '':'' u) \<noteq> 3"
  proof -
    have "main_endpoint api a = ([Print url_usage], Inl SystemExit)"
      using that by (simp add: main_endpoint_def)
    then have "main P api a fs s = ([Print url_usage], SystemExit)" by (rule main_stops)
    then show ?thesis by simp
  qed
  have probe: "main P api a fs s = (connecting schm domain prt @ [Print auth_failed], SystemExit)
          \<and> exit_status (snd (main P api a fs s)) = 0"
    if "main_endpoint api a = ([], Inr (schm, domain, prt))
       \<and> fst (get_version P (main_client api a schm domain prt) s) = Inl e"
    using main_probe_fails[of api a "[]" schm domain prt P s e fs] that by simp
  have only: "fst (main P api a fs s) = [Print url_usage]
          \<or> (\<exists>schm domain prt.
                fst (main P api a fs s) = connecting schm domain prt @ [Print auth_failed])"
    if ex: "snd (main P api a fs s) = SystemExit"
  proof -
    consider
      (usage) "main_endpoint api a = ([Print url_usage], Inl SystemExit)"
    | (index) "main_endpoint api a = ([], Inl (Raised IndexError))"
    | (refused) schm domain prt where
          "main P api a fs s = (connecting schm domain prt @ [Print auth_failed], SystemExit)"
    | (accepted) schm domain prt v s1 fs1 found files processed res s2 where
          "process_files P fs1 (main_client api a schm domain prt)
             (or_default (chunkobjects a) 250) (or_default (chunksinjob a) 50) files s1
           = (processed, res, s2)"
          "main P api a fs s
           = (connecting schm domain prt @ authenticated v @ found @ processed, res)"
      using main_shape[of api a P fs s] main_endpoint_cases[of api a] by fastforce
    then show ?thesis
    proof cases
      case usage
      then show ?thesis using main_stops[OF usage, of P fs s] by simp
    next
      case index
      then show ?thesis using main_stops[OF index, of P fs s] ex by simp
    next
      case refused
      then show ?thesis by auto
    next
      case accepted
      then show ?thesis
        using ex process_files_no_exit[of P fs1 "main_client api a schm domain prt"
                "or_default (chunkobjects a) 250" "or_default (chunksinjob a) 50" files s1]
        by simp
    qed
  qed
  show ?thesis using usage probe only by blast
qed

theorem fatal_errors_exit_witness:
  "main sample_platform sample_api (sample_args\<lparr>url := Some ''bloodhound.absalom.org''\<rparr>) sample_fs 0
     = ([Print url_usage], SystemExit)
   \<and> main sample_platform sample_api (sample_args\<lparr>tokenkey := Some ''nope''\<rparr>) sample_fs 0
     = (connecting ''http'' ''127.0.0.1'' ''8080'' @ [Print auth_failed], SystemExit)
   \<and> exit_status
        (snd (main sample_platform sample_api (sample_args\<lparr>tokenkey := Some ''nope''\<rparr>) sample_fs 0))
      = 0
   \<and> snd (main sample_platform sample_api sample_args sample_fs 0) \<noteq> SystemExit"
proof -
  let ?bad = "sample_args\<lparr>url := Some ''bloodhound.absalom.org''\<rparr>"
  let ?no = "sample_args\<lparr>tokenkey := Some ''nope''\<rparr>"
  have 1: "main sample_platform sample_api ?bad sample_fs 0 = ([Print url_usage], SystemExit)"
    using fatal_errors_exit
      [where a = ?bad and u = "''bloodhound.absalom.org''" and P = sample_platform
         and api = sample_api and fs = sample_fs and s = 0]
    by (simp add: Let_def)
  have 2: "main sample_platform sample_api ?no sample_fs 0
     = (connecting ''http'' ''127.0.0.1'' ''8080'' @ [Print auth_failed], SystemExit)
     \<and> exit_status (snd (main sample_platform sample_api ?no sample_fs 0)) = 0"
    using fatal_errors_exit
      [where a = ?no and P = sample_platform and api = sample_api and fs = sample_fs and s = 0
         and schm = "''http''" and domain = "''127.0.0.1''" and prt = "''8080''" and e = ClientError]
    by (simp add: sample_endpoint sample_probe sample_token_key sample_args_fields)
  have run: "main sample_platform sample_api sample_args sample_fs 0
     = (connecting ''http'' ''127.0.0.1'' ''8080''
        @ authenticated \<lparr>api_version = ''v2'', server_version = ''v5''\<rparr>
        @ [Print (loading ''loot/a.json''), OpenText ''loot/a.json'' Locale,
           ChunkAndSubmit a_doc 2 1,
           Print (loading ''loot/b.json''), OpenText ''loot/b.json'' Locale,
           ChunkAndSubmit b_doc 2 1],
        Returned)"
    using sample_run[where n = 2 and m = 1] by (simp add: sample_args_def or_default_def)
  have 3: "snd (main sample_platform sample_api sample_args sample_fs 0) \<noteq> SystemExit"
    using fatal_errors_exit
      [where a = sample_args and P = sample_platform and api = sample_api and fs = sample_fs
         and s = 0]
    by (auto simp: run connecting_def authenticated_def)
  show ?thesis using 1 2 3 by blast
qed

theorem fatal_errors_exit_counterexample:
  "main sample_platform sample_api (sample_args\<lparr>url := Some ''bloodhound.absalom.org''\<rparr>) sample_fs 0
     = ([Print url_usage], SystemExit)
   \<and> exit_status
        (snd (main sample_platform sample_api
                (sample_args\<lparr>url := Some ''bloodhound.absalom.org''\<rparr>) sample_fs 0)) = 0
   \<and> main sample_platform sample_api (sample_args\<lparr>tokenkey := Some ''nope''\<rparr>) sample_fs 0
     = (connecting ''http'' ''127.0.0.1'' ''8080'' @ [Print auth_failed], SystemExit)
   \<and> exit_status
        (snd (main sample_platform sample_api (sample_args\<lparr>tokenkey := Some ''nope''\<rparr>) sample_fs 0))
      = 0
   \<and> main sample_platform sample_api (sample_args\<lparr>url := Some ''a:b:c''\<rparr>) sample_fs 0
     = ([], Raised IndexError)"
  by (simp add: sample_run_refused sample_run_bad_url sample_run_three_segments)

section \<open>The chunking numbers\<close>

lemma process_files_numbers:
  "ChunkAndSubmit d n' m' \<in> set (fst (process_files P fs c n m files s)) \<Longrightarrow> n' = n \<and> m' = m"
proof (induction files arbitrary: s)
  case Nil
  then show ?case by simp
next
  case (Cons f files)
  have opens: "ChunkAndSubmit d n' m' \<notin> set (fst (load_file P fs f))"
    using load_file_opens[of P fs f] by auto
  show ?case
    using Cons.prems opens
    by (auto split: prod.splits sum.splits option.splits) (metis Cons.IH fst_conv)+
qed

lemma main_reaches_probe:
  assumes "main_endpoint api a = ([], Inr (schm, domain, prt))"
  shows "GetVersion \<in> set (fst (main P api a fs s))"
proof -
  have "\<exists>rest res. main P api a fs s = (connecting schm domain prt @ rest, res)"
    using main_shape[of api a P fs s] assms by auto
  then show ?thesis using connecting_events(1)[of schm domain prt] by auto
qed

text \<open>
  C6, as the script has it. No value of the two numbers is an error: resolution does
  not look at them, and a run whose endpoint resolves goes on to the probe whatever
  they are. A value of 0 is replaced by the default (250 objects, 50 chunks); every
  other value, a negative one too, is used as given. Every submission of the run
  carries the two numbers so obtained, and neither is 0.
\<close>

theorem chunking_numbers_forwarded:
  "main_endpoint api (a\<lparr>chunkobjects := x, chunksinjob := y\<rparr>) = main_endpoint api a
   \<and> (main_endpoint api a = ([], Inr (schm, domain, prt))
       \<longrightarrow> GetVersion \<in> set (fst (main P api (a\<lparr>chunkobjects := x, chunksinjob := y\<rparr>) fs s)))
   \<and> or_default 0 dflt = dflt
   \<and> (x \<noteq> 0 \<longrightarrow> or_default x dflt = x)
   \<and> (ChunkAndSubmit d n m \<in> set (fst (main P api a fs s))
       \<longrightarrow> n = or_default (chunkobjects a) 250 \<and> m = or_default (chunksinjob a) 50
           \<and> n \<noteq> 0 \<and> m \<noteq> 0)"
proof -
  have forwarded: "n = or_default (chunkobjects a) 250 \<and> m = or_default (chunksinjob a) 50"
    if inside: "ChunkAndSubmit d n m \<in> set (fst (main P api a fs s))"
  proof -
    consider
      (stopped) printed stop where "main P api a fs s = (printed, stop)"
          "printed = [] \<or> printed = [Print url_usage]"
    | (refused) schm domain prt where
          "main P api a fs s = (connecting schm domain prt @ [Print auth_failed], SystemExit)"
    | (accepted) schm domain prt v s1 fs1 found files processed res s2 where
          "discover P fs (location a) = (fs1, found, files)"
          "process_files P fs1 (main_client api a schm domain prt)
             (or_default (chunkobjects a) 250) (or_default (chunksinjob a) 50) files s1
           = (processed, res, s2)"
          "main P api a fs s
           = (connecting schm domain prt @ authenticated v @ found @ processed, res)"
      using main_shape[of api a P fs s] by blast
    then show ?thesis
    proof cases
      case stopped
      then show ?thesis using inside by auto
    next
      case refused
      then show ?thesis
        using inside submit_is_file_work[OF connecting_events(2), of d n m schm domain prt] by auto
    next
      case accepted
      have "ChunkAndSubmit d n m \<in> set processed"
        using inside accepted(3)
          submit_is_file_work[OF connecting_events(2), of d n m schm domain prt]
          submit_is_file_work[OF authenticated_events(1), of d n m v]
          submit_is_file_work[OF discover_quiet(1)[OF accepted(1)], of d n m]
        by auto
      then show ?thesis
        using process_files_numbers[of d n m P fs1 "main_client api a schm domain prt"
                "or_default (chunkobjects a) 250" "or_default (chunksinjob a) 50" files s1]
          accepted(2)
        by simp
    qed
  qed
  have never_zero: "or_default z 250 \<noteq> 0" "or_default z 50 \<noteq> 0" for z
    by (simp_all add: or_default_def)
  have same: "main_endpoint api (a\<lparr>chunkobjects := x, chunksinjob := y\<rparr>) = main_endpoint api a"
    by (simp add: main_endpoint_def)
  have dflt: "or_default 0 dflt = dflt" "x \<noteq> 0 \<longrightarrow> or_default x dflt = x"
    by (simp_all add: or_default_def)
  have sub: "ChunkAndSubmit d n m \<in> set (fst (main P api a fs s))
       \<longrightarrow> n = or_default (chunkobjects a) 250 \<and> m = or_default (chunksinjob a) 50
           \<and> n \<noteq> 0 \<and> m \<noteq> 0"
  proof
    assume "ChunkAndSubmit d n m \<in> set (fst (main P api a fs s))"
    then have "n = or_default (chunkobjects a) 250" and "m = or_default (chunksinjob a) 50"
      using forwarded by simp_all
    then show "n = or_default (chunkobjects a) 250 \<and> m = or_default (chunksinjob a) 50
           \<and> n \<noteq> 0 \<and> m \<noteq> 0"
      using never_zero by simp
  qed
  have goes_on: "main_endpoint api a = ([], Inr (schm, domain, prt))
       \<longrightarrow> GetVersion \<in> set (fst (main P api (a\<lparr>chunkobjects := x, chunksinjob := y\<rparr>) fs s))"
    using main_reaches_probe[of api "a\<lparr>chunkobjects := x, chunksinjob := y\<rparr>" schm domain prt P fs s]
    by (simp add: same)
  show ?thesis by (intro conjI same goes_on dflt sub)
qed

theorem chunking_numbers_forwarded_witness:
  "or_default 7 250 = 7
   \<and> ChunkAndSubmit a_doc 7 50
        \<in> set (fst (main sample_platform sample_api
                      (sample_args\<lparr>chunkobjects := 7, chunksinjob := 0\<rparr>) sample_fs 0))
   \<and> or_default (chunksinjob (sample_args\<lparr>chunkobjects := 7, chunksinjob := 0\<rparr>)) 50 = 50
   \<and> GetVersion
        \<in> set (fst (main sample_platform sample_api
                      (sample_args\<lparr>chunkobjects := 7, chunksinjob := 0\<rparr>) sample_fs 0))"
  using chunking_numbers_forwarded
    [where x = 7 and y = 0 and dflt = 250 and d = a_doc and n = 7 and m = 50
       and P = sample_platform and api = sample_api
       and a = "sample_args\<lparr>chunkobjects := 7, chunksinjob := 0\<rparr>"
       and fs = sample_fs and s = 0
       and schm = "''http''" and domain = "''127.0.0.1''" and prt = "''8080''"]
  by (simp add: sample_run or_default_def sample_endpoint sample_args_fields)

theorem chunking_numbers_forwarded_counterexample:
  "main sample_platform sample_api (sample_args\<lparr>chunkobjects := - 5, chunksinjob := 0\<rparr>) sample_fs 0
     = (connecting ''http'' ''127.0.0.1'' ''8080''
        @ authenticated \<lparr>api_version = ''v2'', server_version = ''v5''\<rparr>
        @ [Print (loading ''loot/a.json''), OpenText ''loot/a.json'' Locale,
           ChunkAndSubmit a_doc (- 5) 50,
           Print (loading ''loot/b.json''), OpenText ''loot/b.json'' Locale,
           ChunkAndSubmit b_doc (- 5) 50],
        Returned)"
  by (simp add: sample_run or_default_def)

section \<open>No validation before submission\<close>

lemma process_files_prints:
  "Print t \<in> set (fst (process_files P fs c n m files s)) \<Longrightarrow> \<exists>f. t = loading f"
proof (induction files arbitrary: s)
  case Nil
  then show ?case by simp
next
  case (Cons f files)
  have opens: "Print t \<notin> set (fst (load_file P fs f))"
    using load_file_opens[of P fs f] by auto
  show ?case
    using Cons.prems opens
    by (auto split: prod.splits sum.splits option.splits) (metis Cons.IH fst_conv)+
qed

lemma checking_line_not_printed:
  "Print checking_line \<notin> set (connecting schm domain prt)"
  "Print checking_line \<notin> set (authenticated v)"
  "checking_line \<noteq> loading f"
  "checking_line \<noteq> zip_error loc"
  "checking_line \<noteq> url_usage"
  "checking_line \<noteq> auth_failed"
  by (simp_all add: checking_line_def connecting_def authenticated_def loading_def zip_error_def
        url_usage_def auth_failed_def)

lemma process_files_reaches:
  assumes "process_files P fs c n m before s = (tr, Returned, s')"
    and "load_file P fs f = (opened, Inr d)"
  shows "\<exists>rest. fst (process_files P fs c n m (before @ f # later) s)
                  = tr @ Print (loading f) # opened @ ChunkAndSubmit d n m # rest"
  using assms by (auto simp: process_files_append split: prod.splits option.splits)

lemma sample_submit: "chunk_and_submit_data sample_platform c d n m s = (None, Suc s)"
  by (simp add: sample_platform_def)

text \<open>
  C3. The first line \<open>validate_json\<close> prints is never printed by a run: \<open>main\<close> does
  not call it. In a run whose probe succeeded, every discovered file that the loop
  reaches and that loads is followed at once by the submission of the very document
  loaded, with the run's two chunking numbers, whatever the document holds; a document
  without \<^verbatim>\<open>data\<close> or \<^verbatim>\<open>meta\<close>, which \<open>validate_json\<close> would refuse, is no exception.
  A run that returns has submitted, in order, the document of every discovered file.
\<close>

theorem loaded_documents_submitted_unvalidated:
  "Print checking_line \<notin> set (fst (main P api a fs0 s))
   \<and> (main_endpoint api a = ([], Inr (schm, domain, prt))
       \<and> get_version P (main_client api a schm domain prt) s = (Inr v, s1)
       \<and> discover P fs0 (location a) = (fs, found, before @ f # later)
       \<and> process_files P fs (main_client api a schm domain prt)
             (or_default (chunkobjects a) 250) (or_default (chunksinjob a) 50) before s1
           = (tr, Returned, s2)
       \<and> load_file P fs f = (opened, Inr d)
       \<longrightarrow> (\<exists>rest. fst (main P api a fs0 s)
                     = connecting schm domain prt @ authenticated v @ found @ tr
                       @ Print (loading f) # opened
                       @ ChunkAndSubmit d (or_default (chunkobjects a) 250)
                                          (or_default (chunksinjob a) 50) # rest)
           \<and> (\<not> (exposes ''data'' d \<and> exposes ''meta'' d)
                \<longrightarrow> ChunkAndSubmit d (or_default (chunkobjects a) 250)
                                       (or_default (chunksinjob a) 50)
                      \<in> set (fst (main P api a fs0 s))))
   \<and> (main_endpoint api a = ([], Inr (schm, domain, prt))
       \<and> get_version P (main_client api a schm domain prt) s = (Inr v, s1)
       \<and> discover P fs0 (location a) = (fs, found, files)
       \<and> snd (main P api a fs0 s) = Returned
       \<longrightarrow> map Inr (submitted (fst (main P api a fs0 s)))
             = map (\<lambda>f. snd (load_file P fs f)) files)"
proof -
  let ?c = "main_client api a schm domain prt"
  let ?n = "or_default (chunkobjects a) 250"
  let ?m = "or_default (chunksinjob a) 50"
  have quiet: "Print checking_line \<notin> set (fst (main P api a fs0 s))"
  proof -
    consider
      (stopped) printed stop where "main P api a fs0 s = (printed, stop)"
          "printed = [] \<or> printed = [Print url_usage]"
    | (refused) schm domain prt where
          "main P api a fs0 s = (connecting schm domain prt @ [Print auth_failed], SystemExit)"
    | (accepted) schm domain prt v s1 fs1 found files processed res s2 where
          "discover P fs0 (location a) = (fs1, found, files)"
          "process_files P fs1 (main_client api a schm domain prt)
             (or_default (chunkobjects a) 250) (or_default (chunksinjob a) 50) files s1
           = (processed, res, s2)"
          "main P api a fs0 s
           = (connecting schm domain prt @ authenticated v @ found @ processed, res)"
      using main_shape[of api a P fs0 s] by blast
    then show ?thesis
    proof cases
      case stopped
      then show ?thesis using checking_line_not_printed(5) by auto
    next
      case refused
      then show ?thesis using checking_line_not_printed(1,6) by auto
    next
      case accepted
      have "Print checking_line \<notin> set found"
        using discover_events[OF accepted(1)] checking_line_not_printed(4) by auto
      moreover have "Print checking_line \<notin> set processed"
        using process_files_prints[of checking_line P fs1 "main_client api a schm domain prt"
                "or_default (chunkobjects a) 250" "or_default (chunksinjob a) 50" files s1]
          accepted(2) checking_line_not_printed(3)
        by auto
      ultimately show ?thesis
        using accepted(3) checking_line_not_printed(1,2) by auto
    qed
  qed
  have forwarded: "\<exists>rest. fst (main P api a fs0 s)
                     = connecting schm domain prt @ authenticated v @ found @ tr
                       @ Print (loading f) # opened @ ChunkAndSubmit d ?n ?m # rest"
    if h: "main_endpoint api a = ([], Inr (schm, domain, prt))
       \<and> get_version P ?c s = (Inr v, s1)
       \<and> discover P fs0 (location a) = (fs, found, before @ f # later)
       \<and> process_files P fs ?c ?n ?m before s1 = (tr, Returned, s2)
       \<and> load_file P fs f = (opened, Inr d)"
  proof -
    obtain processed res s3 where
      p: "process_files P fs ?c ?n ?m (before @ f # later) s1 = (processed, res, s3)"
      by (cases "process_files P fs ?c ?n ?m (before @ f # later) s1")
    obtain rest where "processed = tr @ Print (loading f) # opened @ ChunkAndSubmit d ?n ?m # rest"
      using process_files_reaches[of P fs ?c ?n ?m before s1 tr s2 f opened d later] h p by auto
    moreover have "main P api a fs0 s
        = ([] @ connecting schm domain prt @ authenticated v @ found @ processed, res)"
      using h p by (intro main_probe_ok) simp_all
    ultimately show ?thesis by simp
  qed
  have refused_too: "ChunkAndSubmit d ?n ?m \<in> set (fst (main P api a fs0 s))"
    if h: "main_endpoint api a = ([], Inr (schm, domain, prt))
       \<and> get_version P ?c s = (Inr v, s1)
       \<and> discover P fs0 (location a) = (fs, found, before @ f # later)
       \<and> process_files P fs ?c ?n ?m before s1 = (tr, Returned, s2)
       \<and> load_file P fs f = (opened, Inr d)"
    using forwarded[OF h] by auto
  have all: "map Inr (submitted (fst (main P api a fs0 s)))
             = map (\<lambda>f. snd (load_file P fs f)) files"
    if h: "main_endpoint api a = ([], Inr (schm, domain, prt))
       \<and> get_version P ?c s = (Inr v, s1)
       \<and> discover P fs0 (location a) = (fs, found, files)
       \<and> snd (main P api a fs0 s) = Returned"
  proof -
    obtain processed res s2 where p: "process_files P fs ?c ?n ?m files s1 = (processed, res, s2)"
      by (cases "process_files P fs ?c ?n ?m files s1")
    have m: "main P api a fs0 s
             = ([] @ connecting schm domain prt @ authenticated v @ found @ processed, res)"
      using h p by (intro main_probe_ok) simp_all
    have "submitted (fst (main P api a fs0 s)) = submitted processed" and "res = Returned"
      using h discover_quiet(2)[of P fs0 "location a" fs found files]
      by (simp_all add: m submitted_append connecting_events authenticated_events)
    then show ?thesis
      using process_files_submitted[of files P fs ?c ?n ?m s1] p by auto
  qed
  show ?thesis using quiet forwarded refused_too all by blast
qed

theorem loaded_documents_submitted_unvalidated_witness:
  "snd (validate_json b_doc) = Inr False
   \<and> \<not> exposes ''data'' b_doc
   \<and> main sample_platform sample_api sample_args sample_fs 0
       = (connecting ''http'' ''127.0.0.1'' ''8080''
          @ authenticated \<lparr>api_version = ''v2'', server_version = ''v5''\<rparr>
          @ [Print (loading ''loot/a.json''), OpenText ''loot/a.json'' Locale,
             ChunkAndSubmit a_doc 2 1,
             Print (loading ''loot/b.json''), OpenText ''loot/b.json'' Locale,
             ChunkAndSubmit b_doc 2 1],
          Returned)
   \<and> ChunkAndSubmit b_doc 2 1 \<in> set (fst (main sample_platform sample_api sample_args sample_fs 0))
   \<and> submitted (fst (main sample_platform sample_api sample_args sample_fs 0)) = [a_doc, b_doc]
   \<and> Print checking_line \<notin> set (fst (main sample_platform sample_api sample_args sample_fs 0))"
proof -
  let ?v = "\<lparr>api_version = ''v2'', server_version = ''v5''\<rparr>"
  let ?c = "main_client sample_api sample_args ''http'' ''127.0.0.1'' ''8080''"
  have run: "main sample_platform sample_api sample_args sample_fs 0
     = (connecting ''http'' ''127.0.0.1'' ''8080'' @ authenticated ?v
        @ [Print (loading ''loot/a.json''), OpenText ''loot/a.json'' Locale,
           ChunkAndSubmit a_doc 2 1,
           Print (loading ''loot/b.json''), OpenText ''loot/b.json'' Locale,
           ChunkAndSubmit b_doc 2 1],
        Returned)"
    using sample_run[where n = 2 and m = 1] by (simp add: sample_args_def or_default_def)
  have v: "snd (validate_json b_doc) = Inr False" "\<not> exposes ''data'' b_doc"
    by (simp_all add: validate_json_def b_doc_def)
  have first: "process_files sample_platform sample_fs ?c 2 1 [''loot/a.json''] 0
      = ([Print (loading ''loot/a.json''), OpenText ''loot/a.json'' Locale, ChunkAndSubmit a_doc 2 1],
         Returned, Suc 0)"
    by (simp add: sample_load sample_submit)
  have d: "discover sample_platform sample_fs ''loot''
             = (sample_fs, [], [''loot/a.json''] @ ''loot/b.json'' # [])"
    by (simp add: sample_discover)
  have 1: "ChunkAndSubmit b_doc 2 1
             \<in> set (fst (main sample_platform sample_api sample_args sample_fs 0))"
    using loaded_documents_submitted_unvalidated
      [where P = sample_platform and api = sample_api and a = sample_args and ?fs0.0 = sample_fs
         and s = 0 and schm = "''http''" and domain = "''127.0.0.1''" and prt = "''8080''"
         and v = ?v and ?s1.0 = 0 and fs = sample_fs and found = "[]"
         and before = "[''loot/a.json'']" and f = "''loot/b.json''" and later = "[]"
         and tr = "[Print (loading ''loot/a.json''), OpenText ''loot/a.json'' Locale,
                    ChunkAndSubmit a_doc 2 1]"
         and ?s2.0 = "Suc 0" and opened = "[OpenText ''loot/b.json'' Locale]" and d = b_doc]
      v first d
    by (simp add: sample_endpoint sample_probe sample_token_key sample_args_fields sample_load
          or_default_def del: process_files.simps)
  have 2: "submitted (fst (main sample_platform sample_api sample_args sample_fs 0)) = [a_doc, b_doc]
     \<and> Print checking_line \<notin> set (fst (main sample_platform sample_api sample_args sample_fs 0))"
    using loaded_documents_submitted_unvalidated
      [where P = sample_platform and api = sample_api and a = sample_args and ?fs0.0 = sample_fs
         and s = 0 and schm = "''http''" and domain = "''127.0.0.1''" and prt = "''8080''"
         and v = ?v and ?s1.0 = 0 and fs = sample_fs and found = "[]"
         and files = "[''loot/a.json'', ''loot/b.json'']"]
    by (simp add: run sample_endpoint sample_probe sample_token_key sample_args_fields
          sample_discover sample_load submitted_append connecting_events authenticated_events)
  show ?thesis using run v 1 2 by blast
qed

section \<open>Archive or directory\<close>

lemma endswith_iff: "endswith s suffix \<longleftrightarrow> (\<exists>p. s = p @ suffix)"
proof
  assume "endswith s suffix"
  then have "s = take (length s - length suffix) s @ suffix"
    by (metis append_take_drop_id endswith_def)
  then show "\<exists>p. s = p @ suffix" ..
next
  assume "\<exists>p. s = p @ suffix"
  then show "endswith s suffix" by (auto simp: endswith_def)
qed

lemma sample_places:
  "sample_fs ''old.zip'' = Some (Dir [(''a.json'', File a_json)])"
  "sample_fs ''loot.bin'' = Some (File ''PK loot'')"
  "sample_fs ''loot.zip'' = Some (File ''PK loot'')"
  "sample_fs ''locked.zip'' = Some (File ''PK locked'')"
  "sample_fs ''bom.json'' = Some (File (BOM @ a_json))"
  "sample_fs ''bad.json'' = Some (File ''{'')"
  "sample_fs ''missing'' = None"
  by (simp_all add: sample_fs_def)

lemma sample_archives:
  "zip_members sample_platform ''PK loot''
     = Some [(''a.json'', ZFile a_json), (''b.json'', ZFile b_json)]"
  "zip_members sample_platform ''PK locked'' = Some [(''a.json'', ZEncrypted)]"
  by (simp_all add: sample_platform_def)

lemma sample_zip_files:
  "ZipFile sample_platform sample_fs ''loot.zip''
     = Inr [(''a.json'', ZFile a_json), (''b.json'', ZFile b_json)]"
  "ZipFile sample_platform sample_fs ''old.zip'' = Inl IsADirectoryError"
  "ZipFile sample_platform sample_fs ''locked.zip'' = Inr [(''a.json'', ZEncrypted)]"
  "ZipFile sample_platform sample_fs ''missing.zip'' = Inl FileNotFoundError"
  "ZipFile sample_platform sample_fs ''bad.json'' = Inl BadZipFile"
  by (simp_all add: ZipFile_def sample_fs_def sample_platform_def)

lemma sample_extractall:
  "extractall sample_platform sample_fs [(''a.json'', ZFile a_json), (''b.json'', ZFile b_json)]
     = (sample_fs(''a.json'' \<mapsto> File a_json, ''b.json'' \<mapsto> File b_json), None)"
  "extractall sample_platform sample_fs [(''a.json'', ZEncrypted)] = (sample_fs, Some RuntimeError)"
  by (simp_all add: sample_platform_def sample_fs_def)

lemma walk_flat:
  "list_all (\<lambda>e. \<not> is_Dir (snd e)) es \<Longrightarrow> walk dirpath (Dir es) = [(dirpath, [], map fst es)]"
proof -
  assume "list_all (\<lambda>e. \<not> is_Dir (snd e)) es"
  then have "filter (\<lambda>e. is_Dir (snd e)) es = []" and "filter (\<lambda>e. \<not> is_Dir (snd e)) es = es"
    by (induction es) auto
  then show ?thesis by simp
qed

text \<open>
  C10. Whether the location ends in \<^verbatim>\<open>.zip\<close> (these four characters, in lower case)
  decides alone how the files are found. A location that ends in \<^verbatim>\<open>.zip\<close> goes to
  \<open>extract_zip\<close>: when it is an archive that opens and extracts, its member names are
  the files found; when it is a directory, opening it as an archive fails, so the
  archive message is printed and no file is found, whatever the directory holds. Any
  other location goes to \<open>list_files_in_directory\<close>: when it is a directory, the files
  found are the \<^verbatim>\<open>.json\<close> files of its walk (for a directory without subdirectories,
  its own \<^verbatim>\<open>.json\<close> entries, each joined to the location); when it is a file, a zip
  archive too, nothing is found and nothing is extracted.
\<close>

theorem suffix_alone_decides:
  "(endswith loc ''.zip'' \<longleftrightarrow> (\<exists>p. loc = p @ ''.zip''))
   \<and> (endswith loc ''.zip''
       \<longrightarrow> discover P fs loc = extract_zip P fs loc
           \<and> (fs loc = Some (File bs) \<and> zip_members P bs = Some ms
                \<and> extractall P fs ms = (fs', None)
               \<longrightarrow> discover P fs loc = (fs', [], map fst ms))
           \<and> (fs loc = Some (Dir es) \<longrightarrow> discover P fs loc = (fs, [Print (zip_error loc)], [])))
   \<and> (\<not> endswith loc ''.zip''
       \<longrightarrow> discover P fs loc = (fs, list_files_in_directory fs loc)
           \<and> (fs loc = Some (Dir es)
               \<longrightarrow> discover P fs loc
                     = (fs, [],
                        concat (map (\<lambda>(root, dirs, files).
                                       map (path_join root)
                                           (filter (\<lambda>file. endswith file ''.json'') files))
                                    (walk loc (Dir es)))))
           \<and> (fs loc = Some (Dir es) \<and> list_all (\<lambda>e. \<not> is_Dir (snd e)) es
               \<longrightarrow> discover P fs loc
                     = (fs, [],
                        map (path_join loc) (filter (\<lambda>file. endswith file ''.json'') (map fst es))))
           \<and> (fs loc = Some (File bs) \<longrightarrow> discover P fs loc = (fs, [], [])))"
proof -
  have suffix: "endswith loc ''.zip'' \<longleftrightarrow> (\<exists>p. loc = p @ ''.zip'')"
    by (rule endswith_iff)
  have archive: "discover P fs loc = extract_zip P fs loc
           \<and> (fs loc = Some (File bs) \<and> zip_members P bs = Some ms
                \<and> extractall P fs ms = (fs', None)
               \<longrightarrow> discover P fs loc = (fs', [], map fst ms))
           \<and> (fs loc = Some (Dir es) \<longrightarrow> discover P fs loc = (fs, [Print (zip_error loc)], []))"
    if "endswith loc ''.zip''"
    using that by (simp add: discover_def extract_zip_def ZipFile_def)
  have directory: "discover P fs loc = (fs, list_files_in_directory fs loc)
           \<and> (fs loc = Some (Dir es)
               \<longrightarrow> discover P fs loc
                     = (fs, [],
                        concat (map (\<lambda>(root, dirs, files).
                                       map (path_join root)
                                           (filter (\<lambda>file. endswith file ''.json'') files))
                                    (walk loc (Dir es)))))
           \<and> (fs loc = Some (Dir es) \<and> list_all (\<lambda>e. \<not> is_Dir (snd e)) es
               \<longrightarrow> discover P fs loc
                     = (fs, [],
                        map (path_join loc) (filter (\<lambda>file. endswith file ''.json'') (map fst es))))
           \<and> (fs loc = Some (File bs) \<longrightarrow> discover P fs loc = (fs, [], []))"
    if no: "\<not> endswith loc ''.zip''"
  proof -
    have 1: "discover P fs loc = (fs, list_files_in_directory fs loc)"
      using no by (simp add: discover_def)
    have 2: "discover P fs loc
                     = (fs, [],
                        concat (map (\<lambda>(root, dirs, files).
                                       map (path_join root)
                                           (filter (\<lambda>file. endswith file ''.json'') files))
                                    (walk loc (Dir es))))"
      if "fs loc = Some (Dir es)"
      using that by (simp add: 1 list_files_in_directory_def os_walk_def del: walk.simps)
    have 3: "discover P fs loc
                     = (fs, [],
                        map (path_join loc) (filter (\<lambda>file. endswith file ''.json'') (map fst es)))"
      if "fs loc = Some (Dir es) \<and> list_all (\<lambda>e. \<not> is_Dir (snd e)) es"
      using that 2 walk_flat[of es loc] by simp
    have 4: "discover P fs loc = (fs, [], [])" if "fs loc = Some (File bs)"
      using that by (simp add: 1 list_files_in_directory_def os_walk_def)
    show ?thesis using 1 2 3 4 by blast
  qed
  show ?thesis using suffix archive directory by blast
qed

theorem suffix_alone_decides_witness:
  "endswith ''loot.zip'' ''.zip''
   \<and> discover sample_platform sample_fs ''loot.zip''
       = (sample_fs(''a.json'' \<mapsto> File a_json, ''b.json'' \<mapsto> File b_json), [],
          [''a.json'', ''b.json''])
   \<and> sample_fs ''old.zip'' = Some (Dir [(''a.json'', File a_json)])
   \<and> discover sample_platform sample_fs ''old.zip''
       = (sample_fs, [Print (zip_error ''old.zip'')], [])
   \<and> \<not> endswith ''loot'' ''.zip''
   \<and> discover sample_platform sample_fs ''loot''
       = (sample_fs, [], [''loot/a.json'', ''loot/b.json''])
   \<and> \<not> endswith ''loot.bin'' ''.zip''
   \<and> zip_members sample_platform ''PK loot''
       = Some [(''a.json'', ZFile a_json), (''b.json'', ZFile b_json)]
   \<and> sample_fs ''loot.bin'' = Some (File ''PK loot'')
   \<and> discover sample_platform sample_fs ''loot.bin'' = (sample_fs, [], [])
   \<and> \<not> endswith ''LOOT.ZIP'' ''.zip''"
proof -
  let ?ms = "[(''a.json'', ZFile a_json), (''b.json'', ZFile b_json)]"
  let ?es = "[(''a.json'', File a_json), (''notes.txt'', File ''todo''), (''b.json'', File b_json)]"
  have loot: "sample_fs ''loot'' = Some (Dir ?es)" by (simp add: sample_fs_def)
  have 1: "discover sample_platform sample_fs ''loot.zip''
       = (sample_fs(''a.json'' \<mapsto> File a_json, ''b.json'' \<mapsto> File b_json), [],
          [''a.json'', ''b.json''])"
    using suffix_alone_decides
      [where loc = "''loot.zip''" and P = sample_platform and fs = sample_fs
         and bs = "''PK loot''" and ms = ?ms
         and fs' = "sample_fs(''a.json'' \<mapsto> File a_json, ''b.json'' \<mapsto> File b_json)"]
    by (auto simp add: endswith_def sample_places sample_archives sample_extractall)
  have 2: "discover sample_platform sample_fs ''old.zip''
       = (sample_fs, [Print (zip_error ''old.zip'')], [])"
    using suffix_alone_decides
      [where loc = "''old.zip''" and P = sample_platform and fs = sample_fs
         and es = "[(''a.json'', File a_json)]"]
    by (auto simp add: endswith_def sample_places)
  have 3: "discover sample_platform sample_fs ''loot''
       = (sample_fs, [], [''loot/a.json'', ''loot/b.json''])"
    using suffix_alone_decides
      [where loc = "''loot''" and P = sample_platform and fs = sample_fs and es = ?es]
    by (auto simp add: endswith_def loot path_join_def startswith_def)
  have 4: "discover sample_platform sample_fs ''loot.bin'' = (sample_fs, [], [])"
    using suffix_alone_decides
      [where loc = "''loot.bin''" and P = sample_platform and fs = sample_fs and bs = "''PK loot''"]
    by (auto simp add: endswith_def sample_places)
  show ?thesis
    using 1 2 3 4 by (simp add: endswith_def sample_places sample_archives)
qed

section \<open>What the validator accepts\<close>

text \<open>
  C9, as the script has it. For a document that is a JSON object, \<open>validate_json\<close>
  returns true exactly when the object has both keys \<^verbatim>\<open>data\<close> and \<^verbatim>\<open>meta\<close>; when it
  returns false it has printed the troubleshooting lines, and it raises nothing.
\<close>

theorem validate_json_objects:
  "validate_json (JObj items) =
     (if exposes ''data'' (JObj items) \<and> exposes ''meta'' (JObj items)
      then ([Print checking_line], Inr True)
      else (Print checking_line # map Print troubleshoot, Inr False))"
  by (simp add: validate_json_def)

theorem validate_json_objects_counterexample:
  "validate_json (JArr [JStr ''data'', JStr ''meta'']) = ([Print checking_line], Inr True)
   \<and> \<not> exposes ''data'' (JArr [JStr ''data'', JStr ''meta''])
   \<and> validate_json (JStr ''metadata'') = ([Print checking_line], Inr True)
   \<and> \<not> exposes ''data'' (JStr ''metadata'')"
  by (simp add: validate_json_def)

section \<open>Archives\<close>

text \<open>
  C4, as the script has it. When the archive opens and \<^verbatim>\<open>extractall()\<close> returns,
  \<open>extract_zip\<close> prints nothing, leaves the file system as \<^verbatim>\<open>extractall()\<close> left it
  and returns the member names in the archive's order. When the archive does not
  open, or opens but \<^verbatim>\<open>extractall()\<close> raises, \<open>extract_zip\<close> prints the archive
  message and returns no name; it raises in neither case, and a run that finds no
  file returns after discovery without having opened or submitted anything.
\<close>

theorem extract_zip_results:
  "(ZipFile P fs loc = Inr ms \<and> extractall P fs ms = (fs', None)
      \<longrightarrow> extract_zip P fs loc = (fs', [], map fst ms))
   \<and> (ZipFile P fs loc = Inl e
      \<longrightarrow> extract_zip P fs loc = (fs, [Print (zip_error loc)], []))
   \<and> (ZipFile P fs loc = Inr ms \<and> extractall P fs ms = (fs', Some e)
      \<longrightarrow> extract_zip P fs loc = (fs', [Print (zip_error loc)], []))
   \<and> (main_endpoint api a = ([], Inr (schm, domain, prt))
       \<and> get_version P (main_client api a schm domain prt) s = (Inr v, s1)
       \<and> discover P fs (location a) = (fs1, found, [])
      \<longrightarrow> main P api a fs s = (connecting schm domain prt @ authenticated v @ found, Returned)
          \<and> \<not> list_ex file_work (fst (main P api a fs s)))"
proof -
  have opened: "extract_zip P fs loc = (fs', [], map fst ms)"
    if "ZipFile P fs loc = Inr ms \<and> extractall P fs ms = (fs', None)"
    using that by (simp add: extract_zip_def)
  have closed: "extract_zip P fs loc = (fs, [Print (zip_error loc)], [])"
    if "ZipFile P fs loc = Inl e"
    using that by (simp add: extract_zip_def)
  have stopped: "extract_zip P fs loc = (fs', [Print (zip_error loc)], [])"
    if "ZipFile P fs loc = Inr ms \<and> extractall P fs ms = (fs', Some e)"
    using that by (simp add: extract_zip_def)
  have noop: "main P api a fs s = (connecting schm domain prt @ authenticated v @ found, Returned)
          \<and> \<not> list_ex file_work (fst (main P api a fs s))"
    if h: "main_endpoint api a = ([], Inr (schm, domain, prt))
       \<and> get_version P (main_client api a schm domain prt) s = (Inr v, s1)
       \<and> discover P fs (location a) = (fs1, found, [])"
  proof -
    have m: "main P api a fs s = (connecting schm domain prt @ authenticated v @ found, Returned)"
      using h by (intro main_no_files) simp_all
    show ?thesis
      using h connecting_events(2)[of schm domain prt] authenticated_events(1)[of v]
        discover_quiet(1)[of P fs "location a" fs1 found "[]"]
      by (simp add: m)
  qed
  show ?thesis using opened closed stopped noop by blast
qed

theorem extract_zip_results_witness:
  "extract_zip sample_platform sample_fs ''loot.zip''
     = (sample_fs(''a.json'' \<mapsto> File a_json, ''b.json'' \<mapsto> File b_json), [], [''a.json'', ''b.json''])
   \<and> extract_zip sample_platform sample_fs ''old.zip''
       = (sample_fs, [Print (zip_error ''old.zip'')], [])
   \<and> extract_zip sample_platform sample_fs ''locked.zip''
       = (sample_fs, [Print (zip_error ''locked.zip'')], [])
   \<and> main sample_platform sample_api (sample_args\<lparr>location := ''old.zip''\<rparr>) sample_fs 0
       = (connecting ''http'' ''127.0.0.1'' ''8080''
          @ authenticated \<lparr>api_version = ''v2'', server_version = ''v5''\<rparr>
          @ [Print (zip_error ''old.zip'')], Returned)"
proof -
  let ?ms = "[(''a.json'', ZFile a_json), (''b.json'', ZFile b_json)]"
  let ?old = "sample_args\<lparr>location := ''old.zip''\<rparr>"
  have 1: "extract_zip sample_platform sample_fs ''loot.zip''
     = (sample_fs(''a.json'' \<mapsto> File a_json, ''b.json'' \<mapsto> File b_json), [], [''a.json'', ''b.json''])"
    using extract_zip_results
      [where P = sample_platform and fs = sample_fs and loc = "''loot.zip''" and ms = ?ms
         and fs' = "sample_fs(''a.json'' \<mapsto> File a_json, ''b.json'' \<mapsto> File b_json)"]
    by (simp add: sample_zip_files sample_extractall)
  have 2: "extract_zip sample_platform sample_fs ''old.zip''
       = (sample_fs, [Print (zip_error ''old.zip'')], [])"
    using extract_zip_results
      [where P = sample_platform and fs = sample_fs and loc = "''old.zip''"
         and e = IsADirectoryError]
    by (simp add: sample_zip_files)
  have 3: "extract_zip sample_platform sample_fs ''locked.zip''
       = (sample_fs, [Print (zip_error ''locked.zip'')], [])"
    using extract_zip_results
      [where P = sample_platform and fs = sample_fs and loc = "''locked.zip''"
         and ms = "[(''a.json'', ZEncrypted)]" and fs' = sample_fs and e = RuntimeError]
    by (simp add: sample_zip_files sample_extractall)
  have 4: "main sample_platform sample_api ?old sample_fs 0
       = (connecting ''http'' ''127.0.0.1'' ''8080''
          @ authenticated \<lparr>api_version = ''v2'', server_version = ''v5''\<rparr>
          @ [Print (zip_error ''old.zip'')], Returned)"
    using extract_zip_results
      [where P = sample_platform and fs = sample_fs and api = sample_api and a = ?old and s = 0
         and schm = "''http''" and domain = "''127.0.0.1''" and prt = "''8080''"
         and v = "\<lparr>api_version = ''v2'', server_version = ''v5''\<rparr>" and ?s1.0 = 0
         and ?fs1.0 = sample_fs and found = "[Print (zip_error ''old.zip'')]"]
    by (simp add: sample_endpoint sample_probe sample_token_key sample_args_fields sample_discover)
  show ?thesis using 1 2 3 4 by blast
qed

theorem extract_zip_results_counterexample:
  "ZipFile sample_platform sample_fs ''locked.zip'' = Inr [(''a.json'', ZEncrypted)]
   \<and> extractall sample_platform sample_fs [(''a.json'', ZEncrypted)]
       = (sample_fs, Some RuntimeError)
   \<and> extract_zip sample_platform sample_fs ''locked.zip''
       = (sample_fs, [Print (zip_error ''locked.zip'')], [])"
  by (simp add: extract_zip_def sample_zip_files sample_extractall)

section \<open>Loading a file\<close>

lemma utf_8_locale_marker_refused:
  assumes "locale_decode P = (\<lambda>bs. if utf_8_valid P bs then Some bs else None)"
  shows "marker_refused P"
  unfolding marker_refused_def
proof (intro allI impI)
  fix bs t
  assume "locale_decode P (BOM @ bs) = Some t"
  then have "t = BOM @ bs" using assms by (simp split: if_splits)
  then show "json_loads P t = Inl JSONDecodeError"
    by (simp add: json_loads_def startswith_def)
qed

lemma marker_first_attempt:
  assumes "fs f = Some (File (BOM @ bs))" and "marker_refused P"
  shows "\<exists>e. json_load P fs Locale f = Inl e"
proof (cases "locale_decode P (BOM @ bs)")
  case None
  then show ?thesis using assms(1) by (simp add: json_load_def read_text_def decode_def)
next
  case (Some t)
  then have "json_loads P t = Inl JSONDecodeError"
    using assms(2) by (simp add: marker_refused_def)
  then show ?thesis using assms(1) Some by (simp add: json_load_def read_text_def decode_def)
qed

lemma marker_second_attempt:
  assumes "fs f = Some (File (BOM @ bs))"
  shows "json_load P fs Utf8Sig f
           = (if utf_8_valid P bs then json_loads P bs else Inl UnicodeDecodeError)"
  using assms by (simp add: json_load_def read_text_def decode_def startswith_def BOM_def)

lemma load_file_second:
  "json_load P fs Locale f = Inl e
     \<Longrightarrow> load_file P fs f = ([OpenText f Locale, OpenText f Utf8Sig], json_load P fs Utf8Sig f)"
  by (simp add: load_file_def)

lemma process_files_stops:
  assumes "process_files P fs c n m before s = (tr, Returned, s')"
    and "load_file P fs f = (opened, Inl e)"
  shows "process_files P fs c n m (before @ f # later) s
           = (tr @ Print (loading f) # opened, Raised e, s')"
  using assms by (simp add: process_files_append)

text \<open>
  C2. (1) A file that the first attempt reads (it opens, decodes under the platform's
  default encoding and is JSON) is loaded by that attempt alone. (2) A file that
  begins with the byte-order marker fails the first attempt, on a platform whose
  default codec does not hide the marker; what \<open>load_file\<close> returns is the result of
  the second attempt, which skips the marker and reads the bytes after it. (3) When both attempts fail, the
  second error is \<open>load_file\<close>'s; in a run that reached the file, it is the run's
  outcome, and the run's last events are the two attempts: none of the files
  discovered after it is opened or submitted. (By \<open>utf_8_locale_marker_refused\<close>,
  every platform whose default encoding is UTF-8 is one of those of (2).)
\<close>

theorem load_file_attempts:
  "(json_load P fs Locale f = Inr d \<longrightarrow> load_file P fs f = ([OpenText f Locale], Inr d))
   \<and> (fs f = Some (File (BOM @ bs)) \<and> marker_refused P
       \<longrightarrow> (\<exists>e. json_load P fs Locale f = Inl e)
           \<and> load_file P fs f
               = ([OpenText f Locale, OpenText f Utf8Sig],
                  if utf_8_valid P bs then json_loads P bs else Inl UnicodeDecodeError))
   \<and> (json_load P fs Locale f = Inl e1 \<and> json_load P fs Utf8Sig f = Inl e2
       \<longrightarrow> load_file P fs f = ([OpenText f Locale, OpenText f Utf8Sig], Inl e2)
           \<and> (main_endpoint api a = ([], Inr (schm, domain, prt))
               \<and> get_version P (main_client api a schm domain prt) s = (Inr v, s1)
               \<and> discover P fs0 (location a) = (fs, found, before @ f # later)
               \<and> process_files P fs (main_client api a schm domain prt)
                     (or_default (chunkobjects a) 250) (or_default (chunksinjob a) 50) before s1
                   = (tr, Returned, s2)
               \<longrightarrow> main P api a fs0 s
                     = (connecting schm domain prt @ authenticated v @ found @ tr
                          @ [Print (loading f), OpenText f Locale, OpenText f Utf8Sig],
                        Raised e2)))"
proof -
  have first: "load_file P fs f = ([OpenText f Locale], Inr d)"
    if "json_load P fs Locale f = Inr d"
    using that by (simp add: load_file_def)
  have marker: "(\<exists>e. json_load P fs Locale f = Inl e)
           \<and> load_file P fs f
               = ([OpenText f Locale, OpenText f Utf8Sig],
                  if utf_8_valid P bs then json_loads P bs else Inl UnicodeDecodeError)"
    if h: "fs f = Some (File (BOM @ bs)) \<and> marker_refused P"
  proof -
    obtain e where e: "json_load P fs Locale f = Inl e"
      using marker_first_attempt[of fs f bs P] h by blast
    show ?thesis
      using e load_file_second[OF e] marker_second_attempt[of fs f bs P] h by simp
  qed
  have both: "load_file P fs f = ([OpenText f Locale, OpenText f Utf8Sig], Inl e2)"
    if "json_load P fs Locale f = Inl e1 \<and> json_load P fs Utf8Sig f = Inl e2"
    using that load_file_second[of P fs f e1] by simp
  have aborts: "main P api a fs0 s
                     = (connecting schm domain prt @ authenticated v @ found @ tr
                          @ [Print (loading f), OpenText f Locale, OpenText f Utf8Sig],
                        Raised e2)"
    if fails: "json_load P fs Locale f = Inl e1 \<and> json_load P fs Utf8Sig f = Inl e2"
      and run: "main_endpoint api a = ([], Inr (schm, domain, prt))
               \<and> get_version P (main_client api a schm domain prt) s = (Inr v, s1)
               \<and> discover P fs0 (location a) = (fs, found, before @ f # later)
               \<and> process_files P fs (main_client api a schm domain prt)
                     (or_default (chunkobjects a) 250) (or_default (chunksinjob a) 50) before s1
                   = (tr, Returned, s2)"
  proof -
    have "process_files P fs (main_client api a schm domain prt)
            (or_default (chunkobjects a) 250) (or_default (chunksinjob a) 50)
            (before @ f # later) s1
          = (tr @ Print (loading f) # [OpenText f Locale, OpenText f Utf8Sig], Raised e2, s2)"
      using run both[OF fails] by (intro process_files_stops) simp_all
    then show ?thesis
      using run main_probe_ok[of api a "[]" schm domain prt P s v s1 fs0 fs found
                "before @ f # later"] by simp
  qed
  show ?thesis using first marker both aborts by blast
qed

lemma sample_marker_refused: "marker_refused sample_platform"
  by (rule utf_8_locale_marker_refused) (simp add: sample_platform_def)

lemma sample_json_load:
  "json_load sample_platform sample_fs Locale ''loot/a.json'' = Inr a_doc"
  "json_load sample_platform sample_fs Locale ''mixed/bad.json'' = Inl JSONDecodeError"
  "json_load sample_platform sample_fs Utf8Sig ''mixed/bad.json'' = Inl JSONDecodeError"
  "utf_8_valid sample_platform a_json"
  "json_loads sample_platform a_json = Inr a_doc"
  by (simp_all add: json_load_def read_text_def decode_def json_loads_def BOM_def
       sample_valid_def sample_platform_def sample_fs_def startswith_def a_json_def b_json_def)

lemma sample_mixed:
  "discover sample_platform sample_fs ''mixed''
     = (sample_fs, [], [''mixed/a.json''] @ ''mixed/bad.json'' # [''mixed/b.json''])"
  "process_files sample_platform sample_fs c n m [''mixed/a.json''] 0
     = ([Print (loading ''mixed/a.json''), OpenText ''mixed/a.json'' Locale, ChunkAndSubmit a_doc n m],
        Returned, Suc 0)"
  by (simp_all add: discover_def endswith_def list_files_in_directory_def os_walk_def sample_fs_def
       path_join_def startswith_def load_file_def json_load_def read_text_def decode_def
       json_loads_def BOM_def sample_valid_def sample_platform_def a_json_def b_json_def)

theorem load_file_attempts_witness:
  "load_file sample_platform sample_fs ''loot/a.json'' = ([OpenText ''loot/a.json'' Locale], Inr a_doc)
   \<and> load_file sample_platform sample_fs ''bom.json''
       = ([OpenText ''bom.json'' Locale, OpenText ''bom.json'' Utf8Sig], Inr a_doc)
   \<and> main sample_platform sample_api (sample_args\<lparr>location := ''mixed''\<rparr>) sample_fs 0
       = (connecting ''http'' ''127.0.0.1'' ''8080''
          @ authenticated \<lparr>api_version = ''v2'', server_version = ''v5''\<rparr>
          @ [Print (loading ''mixed/a.json''), OpenText ''mixed/a.json'' Locale,
             ChunkAndSubmit a_doc 2 1,
             Print (loading ''mixed/bad.json''), OpenText ''mixed/bad.json'' Locale,
             OpenText ''mixed/bad.json'' Utf8Sig],
          Raised JSONDecodeError)"
proof -
  let ?mixed = "sample_args\<lparr>location := ''mixed''\<rparr>"
  have 1: "load_file sample_platform sample_fs ''loot/a.json''
             = ([OpenText ''loot/a.json'' Locale], Inr a_doc)"
    using load_file_attempts
      [where P = sample_platform and fs = sample_fs and f = "''loot/a.json''" and d = a_doc]
    by (simp add: sample_json_load)
  have 2: "load_file sample_platform sample_fs ''bom.json''
       = ([OpenText ''bom.json'' Locale, OpenText ''bom.json'' Utf8Sig], Inr a_doc)"
    using load_file_attempts
      [where P = sample_platform and fs = sample_fs and f = "''bom.json''" and bs = a_json]
    by (simp add: sample_places sample_marker_refused sample_json_load)
  have 3: "main sample_platform sample_api ?mixed sample_fs 0
       = (connecting ''http'' ''127.0.0.1'' ''8080''
          @ authenticated \<lparr>api_version = ''v2'', server_version = ''v5''\<rparr>
          @ [Print (loading ''mixed/a.json''), OpenText ''mixed/a.json'' Locale,
             ChunkAndSubmit a_doc 2 1,
             Print (loading ''mixed/bad.json''), OpenText ''mixed/bad.json'' Locale,
             OpenText ''mixed/bad.json'' Utf8Sig],
          Raised JSONDecodeError)"
    using load_file_attempts
      [where P = sample_platform and fs = sample_fs and f = "''mixed/bad.json''"
         and ?e1.0 = JSONDecodeError and ?e2.0 = JSONDecodeError
         and api = sample_api and a = ?mixed and s = 0 and ?fs0.0 = sample_fs
         and schm = "''http''" and domain = "''127.0.0.1''" and prt = "''8080''"
         and v = "\<lparr>api_version = ''v2'', server_version = ''v5''\<rparr>" and ?s1.0 = 0
         and found = "[]" and before = "[''mixed/a.json'']" and later = "[''mixed/b.json'']"
         and tr = "[Print (loading ''mixed/a.json''), OpenText ''mixed/a.json'' Locale,
                    ChunkAndSubmit a_doc 2 1]"
         and ?s2.0 = "Suc 0"]
    by (simp add: sample_json_load sample_endpoint sample_probe sample_token_key
          sample_args_fields sample_mixed or_default_def del: process_files.simps)
  show ?thesis using 1 2 3 by blast
qed

section \<open>Walking a directory\<close>

lemma walk_names:
  "concat (map (\<lambda>(root, dirs, files). filter Q files) (walk dirpath n)) = filter Q (regular_files n)"
proof (induction dirpath n rule: walk.induct)
  case (1 dirpath bs)
  show ?case by simp
next
  case (2 dirpath es)
  have "concat (map (\<lambda>(root, dirs, files). filter Q files)
                  (concat (map (\<lambda>e. walk (path_join dirpath (fst e)) (snd e)) ds)))
        = filter Q (concat (map (\<lambda>e. regular_files (snd e)) ds))"
    if "set ds \<subseteq> set (filter (\<lambda>e. is_Dir (snd e)) es)" for ds
    using that
  proof (induction ds)
    case Nil
    show ?case by simp
  next
    case (Cons e ds)
    then have "e \<in> set (filter (\<lambda>e. is_Dir (snd e)) es)" by simp
    then show ?case using Cons "2.IH"[of e] by simp
  qed
  then show ?case by simp
qed

lemma endswith_path_join: "endswith file suffix \<Longrightarrow> endswith (path_join root file) suffix"
  by (auto simp: endswith_iff path_join_def)

lemma list_files_suffix:
  "p \<in> set (snd (list_files_in_directory fs directory)) \<Longrightarrow> endswith p ''.json''"
  by (auto simp: list_files_in_directory_def endswith_path_join)

lemma list_files_count:
  "fs directory = Some n \<Longrightarrow>
     length (snd (list_files_in_directory fs directory))
       = length (filter (\<lambda>file. endswith file ''.json'') (regular_files n))"
proof -
  assume "fs directory = Some n"
  then have "length (snd (list_files_in_directory fs directory))
      = length (concat (map (\<lambda>(root, dirs, files).
                         map (path_join root) (filter (\<lambda>file. endswith file ''.json'') files))
                      (walk directory n)))"
    by (simp add: list_files_in_directory_def os_walk_def)
  also have "\<dots> = length (concat (map (\<lambda>(root, dirs, files).
                         filter (\<lambda>file. endswith file ''.json'') files) (walk directory n)))"
    by (simp add: length_concat comp_def case_prod_unfold)
  finally show ?thesis by (simp add: walk_names)
qed

lemma list_files_silent: "fst (list_files_in_directory fs directory) = []"
  by (simp add: list_files_in_directory_def)

lemma list_files_missing: "fs directory = None \<Longrightarrow> list_files_in_directory fs directory = ([], [])"
  by (simp add: list_files_in_directory_def os_walk_def)

text \<open>
  C5, on a directory that does not exist. \<open>list_files_in_directory\<close> returns no path
  and prints nothing: \<^verbatim>\<open>os.walk\<close> does not raise the \<^verbatim>\<open>FileNotFoundError\<close> that the
  function's handler waits for. The run goes on over no file and returns, having
  printed no line after the authentication lines. (For a directory that exists, the
  paths returned all end in \<^verbatim>\<open>.json\<close> and are as many as the files under it with such
  a name: \<open>list_files_suffix\<close> and \<open>list_files_count\<close>.)
\<close>

theorem missing_directory_is_silent:
  "sample_fs ''missing'' = None
   \<and> list_files_in_directory sample_fs ''missing'' = ([], [])
   \<and> main sample_platform sample_api (sample_args\<lparr>location := ''missing''\<rparr>) sample_fs 0
       = (connecting ''http'' ''127.0.0.1'' ''8080''
          @ authenticated \<lparr>api_version = ''v2'', server_version = ''v5''\<rparr>,
          Returned)"
proof -
  have "main sample_platform sample_api (sample_args\<lparr>location := ''missing''\<rparr>) sample_fs 0
       = (connecting ''http'' ''127.0.0.1'' ''8080''
          @ authenticated \<lparr>api_version = ''v2'', server_version = ''v5''\<rparr> @ [],
          Returned)"
    by (rule main_no_files[where ?s1.0 = 0 and ?fs1.0 = sample_fs])
       (simp_all add: sample_endpoint sample_probe sample_token_key sample_args_fields
          sample_discover)
  then show ?thesis by (simp add: sample_places list_files_missing)
qed

end
